theory Spec2Isabelle
  imports Main
begin

section \<open>Extension blueprints: data model\<close>

text \<open>
  The embedded code is \<^verbatim>\<open>createExtensionBlueprint\<close> of
  \<^verbatim>\<open>packages/frontend-plugin-api/src/wiring/createExtensionBlueprint.ts\<close>.

  Conventions of the embedding:
  \<^item> an optional property (\<^verbatim>\<open>namespace?: string\<close>) is an \<open>option\<close>, with \<open>None\<close> for
    \<^verbatim>\<open>undefined\<close>;
  \<^item> an object used as a dictionary (input slots, config schema) is a map from property
    names to entries;
  \<^item> a call that may throw returns a sum, \<open>Inl e\<close> for the exception \<open>e\<close> thrown;
  \<^item> the \<^verbatim>\<open>Iterable\<close> a factory returns is the list of the values it yields, and \<open>Inl e\<close>
    stands for a factory that throws \<open>e\<close>, when called or while its result is iterated;
  \<^item> the type parameters of the source stay type variables: \<open>'p\<close> the params, \<open>'v\<close> the
    extension data values, \<open>'r\<close> the data references, \<open>'i\<close> the input declarations, \<open>'s\<close>
    the schema entries, \<open>'n\<close> the node, \<open>'a\<close> the API holder, \<open>'c\<close> the resolved config,
    \<open>'x\<close> the resolved inputs, \<open>'y\<close> the input overrides, \<open>'k\<close> the data containers,
    \<open>'d\<close> the extension definitions, \<open>'e\<close> the exceptions, \<open>'t\<close> the data reference table;
  \<^item> \<^verbatim>\<open>createExtension\<close>, \<^verbatim>\<open>createExtensionDataContainer\<close> and
    \<^verbatim>\<open>resolveInputOverrides\<close> are imported from other modules: they are parameters of the
    model. \<^verbatim>\<open>createExtension\<close> runs when \<^verbatim>\<open>make\<close> is called, so it also threads a
    state \<open>'w\<close> of the world outside this module, in which its calls can be counted.
\<close>

record attach_target =
  at_id :: string
  at_input :: string

record 's config_decl =
  schema :: "string \<rightharpoonup> 's"

record ('n, 'a, 'c, 'x) factory_context =
  ctx_node :: 'n
  ctx_apis :: 'a
  ctx_config :: 'c
  ctx_inputs :: 'x

record ('c, 'y) inner_context =
  inner_config :: "'c option"
  inner_inputs :: "'y option"

record ('p, 'v, 'r, 'i, 's, 'n, 'a, 'c, 'x, 'e, 't) blueprint_options =
  opt_kind :: string
  opt_namespace :: "string option"
  opt_attachTo :: attach_target
  opt_disabled :: "bool option"
  opt_inputs :: "(string \<rightharpoonup> 'i) option"
  opt_output :: "'r list"
  opt_name :: "string option"
  opt_config :: "'s config_decl option"
  opt_factory :: "'p \<Rightarrow> ('n, 'a, 'c, 'x) factory_context \<Rightarrow> 'e + 'v list"
  opt_dataRefs :: "'t option"

record 'p make_args =
  arg_namespace :: "string option"
  arg_name :: "string option"
  arg_attachTo :: "attach_target option"
  arg_disabled :: "bool option"
  arg_params :: 'p

type_synonym ('p, 'c, 'y, 'k, 'e) original_factory =
  "'p \<Rightarrow> ('c, 'y) inner_context option \<Rightarrow> 'e + 'k"

record ('p, 'v, 'r, 'i, 's, 'n, 'a, 'c, 'x, 'y, 'k, 'e) override_args =
  ovr_namespace :: "string option"
  ovr_name :: "string option"
  ovr_attachTo :: "attach_target option"
  ovr_disabled :: "bool option"
  ovr_inputs :: "(string \<rightharpoonup> 'i) option"
  ovr_output :: "'r list option"
  ovr_config :: "'s config_decl option"
  ovr_factory :: "('p, 'c, 'y, 'k, 'e) original_factory \<Rightarrow>
                  ('n, 'a, 'c, 'x) factory_context \<Rightarrow> 'e + 'v list"

text \<open>The object literal handed to \<^verbatim>\<open>createExtension\<close>.\<close>

record ('v, 'r, 'i, 's, 'n, 'a, 'c, 'x, 'e) extension_declaration =
  decl_kind :: string
  decl_namespace :: "string option"
  decl_name :: "string option"
  decl_attachTo :: attach_target
  decl_disabled :: "bool option"
  decl_inputs :: "(string \<rightharpoonup> 'i) option"
  decl_output :: "'r list"
  decl_config :: "'s config_decl option"
  decl_factory :: "('n, 'a, 'c, 'x) factory_context \<Rightarrow> 'e + 'v list"

text \<open>The object \<^verbatim>\<open>createExtensionBlueprint\<close> returns.\<close>

record ('t, 'm, 'o) extension_blueprint =
  bp_dataRefs :: "'t option"
  bp_make :: 'm
  bp_makeWithOverrides :: 'o

type_synonym ('v, 'r, 'i, 's, 'n, 'a, 'c, 'x, 'e, 'd, 'w) extension_ctor =
  "('v, 'r, 'i, 's, 'n, 'a, 'c, 'x, 'e) extension_declaration \<Rightarrow> 'w \<Rightarrow> ('e + 'd) \<times> 'w"

type_synonym ('v, 'r, 'k, 'e) container_ctor =
  "'v list \<Rightarrow> 'r list \<Rightarrow> 'e + 'k"

type_synonym ('i, 'x, 'y, 'e) override_resolver =
  "(string \<rightharpoonup> 'i) option \<Rightarrow> 'x \<Rightarrow> 'y option \<Rightarrow> 'e + 'x"

section \<open>Operators of the source language\<close>

text \<open>\<^verbatim>\<open>a ?? b\<close> where \<^verbatim>\<open>b\<close> may itself be undefined.\<close>

definition nullish :: "'a option \<Rightarrow> 'a option \<Rightarrow> 'a option" where
  "nullish a b = (case a of Some v \<Rightarrow> Some v | None \<Rightarrow> b)"

text \<open>\<^verbatim>\<open>a ?? b\<close> where \<^verbatim>\<open>b\<close> is always defined.\<close>

definition nullish_or :: "'a option \<Rightarrow> 'a \<Rightarrow> 'a" where
  "nullish_or a b = (case a of Some v \<Rightarrow> v | None \<Rightarrow> b)"

text \<open>\<^verbatim>\<open>obj?.field\<close> for an optional property of a possibly undefined object.\<close>

definition opt_chain :: "'a option \<Rightarrow> ('a \<Rightarrow> 'b option) \<Rightarrow> 'b option" where
  "opt_chain obj field = (case obj of None \<Rightarrow> None | Some v \<Rightarrow> field v)"

text \<open>\<^verbatim>\<open>...obj\<close> inside an object literal: the properties of \<^verbatim>\<open>obj\<close>, none when it is
  undefined. In \<^verbatim>\<open>{ ...a, ...b }\<close> the later spread overwrites, which is \<open>spread a ++ spread b\<close>.\<close>

definition spread :: "('key \<rightharpoonup> 'val) option \<Rightarrow> ('key \<rightharpoonup> 'val)" where
  "spread obj = (case obj of None \<Rightarrow> Map.empty | Some m \<Rightarrow> m)"

section \<open>The blueprint factory\<close>

text \<open>The argument of \<^verbatim>\<open>createExtension\<close> in \<^verbatim>\<open>make\<close>.\<close>

definition make_declaration ::
  "('p, 'v, 'r, 'i, 's, 'n, 'a, 'c, 'x, 'e, 't) blueprint_options \<Rightarrow> 'p make_args \<Rightarrow>
   ('v, 'r, 'i, 's, 'n, 'a, 'c, 'x, 'e) extension_declaration" where
  "make_declaration options args =
     \<lparr> decl_kind = opt_kind options,
       decl_namespace = nullish (arg_namespace args) (opt_namespace options),
       decl_name = nullish (arg_name args) (opt_name options),
       decl_attachTo = nullish_or (arg_attachTo args) (opt_attachTo options),
       decl_disabled = nullish (arg_disabled args) (opt_disabled options),
       decl_inputs = opt_inputs options,
       decl_output = opt_output options,
       decl_config = opt_config options,
       decl_factory = (\<lambda>ctx. opt_factory options (arg_params args) ctx) \<rparr>"

text \<open>The first argument of \<^verbatim>\<open>args.factory\<close> in \<^verbatim>\<open>makeWithOverrides\<close>: the callable
  \<^verbatim>\<open>(innerParams, innerContext) => createExtensionDataContainer(options.factory(...), options.output)\<close>,
  closed over the context \<^verbatim>\<open>{ node, config, inputs, apis }\<close> of the enclosing factory. The
  context object of the inner call is built first (so \<^verbatim>\<open>resolveInputOverrides\<close> runs before
  \<^verbatim>\<open>options.factory\<close>), and nothing is caught.\<close>

definition originalFactory ::
  "('i, 'x, 'y, 'e) override_resolver \<Rightarrow> ('v, 'r, 'k, 'e) container_ctor \<Rightarrow>
   ('p, 'v, 'r, 'i, 's, 'n, 'a, 'c, 'x, 'e, 't) blueprint_options \<Rightarrow>
   ('n, 'a, 'c, 'x) factory_context \<Rightarrow> ('p, 'c, 'y, 'k, 'e) original_factory" where
  "originalFactory resolveInputOverrides createExtensionDataContainer options ctx
       innerParams innerContext =
     (case resolveInputOverrides (opt_inputs options) (ctx_inputs ctx)
             (opt_chain innerContext inner_inputs) of
        Inl e \<Rightarrow> Inl e
      | Inr resolved \<Rightarrow>
          (case opt_factory options innerParams
                  \<lparr> ctx_node = ctx_node ctx,
                    ctx_apis = ctx_apis ctx,
                    ctx_config = nullish_or (opt_chain innerContext inner_config) (ctx_config ctx),
                    ctx_inputs = resolved \<rparr> of
             Inl e \<Rightarrow> Inl e
           | Inr vals \<Rightarrow> createExtensionDataContainer vals (opt_output options)))"

text \<open>The \<^verbatim>\<open>config\<close> property in \<^verbatim>\<open>makeWithOverrides\<close>:
  \<^verbatim>\<open>options.config || args.config ? { schema: { ...options.config?.schema, ...args.config?.schema } } : undefined\<close>.
  An object is truthy, so the test fails only when both are undefined.\<close>

definition merged_config ::
  "'s config_decl option \<Rightarrow> 's config_decl option \<Rightarrow> 's config_decl option" where
  "merged_config base extra =
     (case (base, extra) of
        (None, None) \<Rightarrow> None
      | _ \<Rightarrow> Some \<lparr> schema = spread (map_option schema base) ++ spread (map_option schema extra) \<rparr>)"

text \<open>The argument of \<^verbatim>\<open>createExtension\<close> in \<^verbatim>\<open>makeWithOverrides\<close>.\<close>

definition makeWithOverrides_declaration ::
  "('i, 'x, 'y, 'e) override_resolver \<Rightarrow> ('v, 'r, 'k, 'e) container_ctor \<Rightarrow>
   ('p, 'v, 'r, 'i, 's, 'n, 'a, 'c, 'x, 'e, 't) blueprint_options \<Rightarrow>
   ('p, 'v, 'r, 'i, 's, 'n, 'a, 'c, 'x, 'y, 'k, 'e) override_args \<Rightarrow>
   ('v, 'r, 'i, 's, 'n, 'a, 'c, 'x, 'e) extension_declaration" where
  "makeWithOverrides_declaration resolveInputOverrides createExtensionDataContainer options args =
     \<lparr> decl_kind = opt_kind options,
       decl_namespace = nullish (ovr_namespace args) (opt_namespace options),
       decl_name = nullish (ovr_name args) (opt_name options),
       decl_attachTo = nullish_or (ovr_attachTo args) (opt_attachTo options),
       decl_disabled = nullish (ovr_disabled args) (opt_disabled options),
       decl_inputs = Some (spread (ovr_inputs args) ++ spread (opt_inputs options)),
       decl_output = nullish_or (ovr_output args) (opt_output options),
       decl_config = merged_config (opt_config options) (ovr_config args),
       decl_factory = (\<lambda>ctx.
         ovr_factory args
           (originalFactory resolveInputOverrides createExtensionDataContainer options ctx)
           \<lparr> ctx_node = ctx_node ctx,
             ctx_apis = ctx_apis ctx,
             ctx_config = ctx_config ctx,
             ctx_inputs = ctx_inputs ctx \<rparr>) \<rparr>"

text \<open>The two methods of the returned object, closed over \<^verbatim>\<open>options\<close>.\<close>

definition make ::
  "('v, 'r, 'i, 's, 'n, 'a, 'c, 'x, 'e, 'd, 'w) extension_ctor \<Rightarrow>
   ('p, 'v, 'r, 'i, 's, 'n, 'a, 'c, 'x, 'e, 't) blueprint_options \<Rightarrow>
   'p make_args \<Rightarrow> 'w \<Rightarrow> ('e + 'd) \<times> 'w" where
  "make createExtension options args = createExtension (make_declaration options args)"

definition makeWithOverrides ::
  "('v, 'r, 'i, 's, 'n, 'a, 'c, 'x, 'e, 'd, 'w) extension_ctor \<Rightarrow>
   ('i, 'x, 'y, 'e) override_resolver \<Rightarrow> ('v, 'r, 'k, 'e) container_ctor \<Rightarrow>
   ('p, 'v, 'r, 'i, 's, 'n, 'a, 'c, 'x, 'e, 't) blueprint_options \<Rightarrow>
   ('p, 'v, 'r, 'i, 's, 'n, 'a, 'c, 'x, 'y, 'k, 'e) override_args \<Rightarrow>
   'w \<Rightarrow> ('e + 'd) \<times> 'w" where
  "makeWithOverrides createExtension resolveInputOverrides createExtensionDataContainer
       options args =
     createExtension
       (makeWithOverrides_declaration resolveInputOverrides createExtensionDataContainer
          options args)"

definition createExtensionBlueprint ::
  "('v, 'r, 'i, 's, 'n, 'a, 'c, 'x, 'e, 'd, 'w) extension_ctor \<Rightarrow>
   ('i, 'x, 'y, 'e) override_resolver \<Rightarrow> ('v, 'r, 'k, 'e) container_ctor \<Rightarrow>
   ('p, 'v, 'r, 'i, 's, 'n, 'a, 'c, 'x, 'e, 't) blueprint_options \<Rightarrow>
   ('t,
    'p make_args \<Rightarrow> 'w \<Rightarrow> ('e + 'd) \<times> 'w,
    ('p, 'v, 'r, 'i, 's, 'n, 'a, 'c, 'x, 'y, 'k, 'e) override_args \<Rightarrow> 'w \<Rightarrow> ('e + 'd) \<times> 'w)
   extension_blueprint" where
  "createExtensionBlueprint createExtension resolveInputOverrides createExtensionDataContainer
       options =
     \<lparr> bp_dataRefs = opt_dataRefs options,
       bp_make = make createExtension options,
       bp_makeWithOverrides =
         makeWithOverrides createExtension resolveInputOverrides createExtensionDataContainer
           options \<rparr>"

section \<open>Callers and example collaborators\<close>

text \<open>An external constructor wrapped so that the world also records, in order, every
  declaration it is called with.\<close>

definition recording ::
  "('v, 'r, 'i, 's, 'n, 'a, 'c, 'x, 'e, 'd, 'w) extension_ctor \<Rightarrow>
   ('v, 'r, 'i, 's, 'n, 'a, 'c, 'x, 'e, 'd,
    'w \<times> ('v, 'r, 'i, 's, 'n, 'a, 'c, 'x, 'e) extension_declaration list) extension_ctor" where
  "recording createExtension decl world =
     (case createExtension decl (fst world) of
        (res, w') \<Rightarrow> (res, (w', snd world @ [decl])))"

text \<open>A caller that uses one blueprint any number of times.\<close>

datatype ('ma, 'oa) blueprint_call = Make 'ma | MakeWithOverrides 'oa

fun call_blueprint :: "('t, 'ma \<Rightarrow> 'w \<Rightarrow> 'res \<times> 'w, 'oa \<Rightarrow> 'w \<Rightarrow> 'res \<times> 'w) extension_blueprint \<Rightarrow>
    ('ma, 'oa) blueprint_call \<Rightarrow> 'w \<Rightarrow> 'res \<times> 'w" where
  "call_blueprint blueprint (Make args) w = bp_make blueprint args w"
| "call_blueprint blueprint (MakeWithOverrides args) w = bp_makeWithOverrides blueprint args w"

fun call_sequence :: "('t, 'ma \<Rightarrow> 'w \<Rightarrow> 'res \<times> 'w, 'oa \<Rightarrow> 'w \<Rightarrow> 'res \<times> 'w) extension_blueprint \<Rightarrow>
    ('ma, 'oa) blueprint_call list \<Rightarrow> 'w \<Rightarrow> 'res list \<times> 'w" where
  "call_sequence blueprint [] w = ([], w)"
| "call_sequence blueprint (call # calls) w =
     (case call_blueprint blueprint call w of
        (res, w') \<Rightarrow>
          (case call_sequence blueprint calls w' of
             (rs, w'') \<Rightarrow> (res # rs, w'')))"

text \<open>Concrete collaborators and inputs, used to run the model. Data values are tagged with
  the id of their data reference and carry what the factory was called with; the resolved config
  is a string, resolved inputs and input overrides are association lists, exceptions are
  messages, and params are an optional number (\<^verbatim>\<open>number | undefined\<close>).\<close>

type_synonym example_value = "string \<times> nat option \<times> string \<times> (string \<times> string) list"

type_synonym example_context = "(unit, unit, string, (string \<times> string) list) factory_context"

type_synonym example_declaration =
  "(example_value, string, string, string, unit, unit, string, (string \<times> string) list, string)
   extension_declaration"

definition example_createExtension ::
  "example_declaration \<Rightarrow> nat \<Rightarrow> (string + example_declaration) \<times> nat" where
  "example_createExtension decl calls =
     (if decl_kind decl = [] then (Inl ''kind must not be empty'', Suc calls)
      else (Inr decl, Suc calls))"

definition example_container ::
  "example_value list \<Rightarrow> string list \<Rightarrow> string + (example_value list \<times> string list)" where
  "example_container vals refs =
     (if list_all (\<lambda>v. fst v \<in> set refs) vals then Inr (vals, refs)
      else Inl ''extension data was provided but not declared'')"

definition example_resolver ::
  "(string \<rightharpoonup> string) option \<Rightarrow> (string \<times> string) list \<Rightarrow> (string \<times> string) list option \<Rightarrow>
   string + (string \<times> string) list" where
  "example_resolver declared ambient overrides =
     (case overrides of
        None \<Rightarrow> Inr ambient
      | Some ov \<Rightarrow>
          (if list_all (\<lambda>kv. fst kv \<in> dom (spread declared)) ov
           then Inr (ov @ ambient)
           else Inl ''override of an input that is not declared''))"

definition example_factory :: "nat option \<Rightarrow> example_context \<Rightarrow> string + example_value list" where
  "example_factory params ctx =
     (if params = Some 0 then Inl ''params must not be zero''
      else Inr [(''X'', params, ctx_config ctx, ctx_inputs ctx)])"

definition example_options ::
  "(nat option, example_value, string, string, string, unit, unit, string,
    (string \<times> string) list, string, unit) blueprint_options" where
  "example_options =
     \<lparr> opt_kind = ''page'',
       opt_namespace = Some ''app'',
       opt_attachTo = \<lparr> at_id = ''app/routes'', at_input = ''routes'' \<rparr>,
       opt_disabled = Some False,
       opt_inputs = Some [''header'' \<mapsto> ''base header slot'', ''shared'' \<mapsto> ''base shared slot''],
       opt_output = [''X''],
       opt_name = None,
       opt_config = Some \<lparr> schema = [''foo'' \<mapsto> ''base string'', ''title'' \<mapsto> ''base title''] \<rparr>,
       opt_factory = example_factory,
       opt_dataRefs = None \<rparr>"

definition example_context :: example_context where
  "example_context =
     \<lparr> ctx_node = (), ctx_apis = (), ctx_config = ''ambient config'',
       ctx_inputs = [(''header'', ''ambient header'')] \<rparr>"

definition example_args_supplied :: "nat option make_args" where
  "example_args_supplied =
     \<lparr> arg_namespace = Some ''catalog'',
       arg_name = Some ''index'',
       arg_attachTo = Some \<lparr> at_id = ''app/nav'', at_input = ''items'' \<rparr>,
       arg_disabled = Some True,
       arg_params = Some 1 \<rparr>"

definition example_args_omitted :: "nat option make_args" where
  "example_args_omitted =
     \<lparr> arg_namespace = None, arg_name = None, arg_attachTo = None, arg_disabled = None,
       arg_params = Some 1 \<rparr>"

text \<open>An override factory that only calls the original factory with given params and no inner
  context, and returns the container it gets: \<^verbatim>\<open>orig => orig(params)\<close>. The container is
  the iterable returned, so the values yielded are those its iteration \<open>values_of\<close> gives.\<close>

definition passthrough_factory ::
  "('k \<Rightarrow> 'v list) \<Rightarrow> 'p \<Rightarrow> ('p, 'c, 'y, 'k, 'e) original_factory \<Rightarrow>
   ('n, 'a, 'c, 'x) factory_context \<Rightarrow> 'e + 'v list" where
  "passthrough_factory values_of params orig ctx =
     (case orig params None of Inl e \<Rightarrow> Inl e | Inr container \<Rightarrow> Inr (values_of container))"

text \<open>An override factory that calls the original factory with an inner context.\<close>

definition inner_context_factory ::
  "('k \<Rightarrow> 'v list) \<Rightarrow> 'p \<Rightarrow> ('c, 'y) inner_context \<Rightarrow> ('p, 'c, 'y, 'k, 'e) original_factory \<Rightarrow>
   ('n, 'a, 'c, 'x) factory_context \<Rightarrow> 'e + 'v list" where
  "inner_context_factory values_of params inner orig ctx =
     (case orig params (Some inner) of
        Inl e \<Rightarrow> Inl e
      | Inr container \<Rightarrow> Inr (values_of container))"

type_synonym example_override_args =
  "(nat option, example_value, string, string, string, unit, unit, string,
    (string \<times> string) list, (string \<times> string) list, example_value list \<times> string list, string)
   override_args"

definition example_overrides :: "nat option \<Rightarrow> example_override_args" where
  "example_overrides params =
     \<lparr> ovr_namespace = None,
       ovr_name = Some ''custom'',
       ovr_attachTo = None,
       ovr_disabled = None,
       ovr_inputs = Some [''extra'' \<mapsto> ''extra slot'', ''shared'' \<mapsto> ''override shared slot''],
       ovr_output = Some [''Y''],
       ovr_config = Some \<lparr> schema = [''bar'' \<mapsto> ''override number'',
                                       ''title'' \<mapsto> ''override title''] \<rparr>,
       ovr_factory = passthrough_factory fst params \<rparr>"

definition example_overrides_plain :: "nat option \<Rightarrow> example_override_args" where
  "example_overrides_plain params =
     \<lparr> ovr_namespace = None, ovr_name = None, ovr_attachTo = None, ovr_disabled = None,
       ovr_inputs = None, ovr_output = None, ovr_config = None,
       ovr_factory = passthrough_factory fst params \<rparr>"

text \<open>The declaration a call of the blueprint hands to the external constructor.\<close>

fun call_declaration ::
  "('i, 'x, 'y, 'e) override_resolver \<Rightarrow> ('v, 'r, 'k, 'e) container_ctor \<Rightarrow>
   ('p, 'v, 'r, 'i, 's, 'n, 'a, 'c, 'x, 'e, 't) blueprint_options \<Rightarrow>
   ('p make_args, ('p, 'v, 'r, 'i, 's, 'n, 'a, 'c, 'x, 'y, 'k, 'e) override_args) blueprint_call \<Rightarrow>
   ('v, 'r, 'i, 's, 'n, 'a, 'c, 'x, 'e) extension_declaration" where
  "call_declaration r c options (Make args) = make_declaration options args"
| "call_declaration r c options (MakeWithOverrides args) =
     makeWithOverrides_declaration r c options args"

definition example_inner_undeclared :: "(string, (string \<times> string) list) inner_context" where
  "example_inner_undeclared =
     \<lparr> inner_config = None, inner_inputs = Some [(''footer'', ''inner footer'')] \<rparr>"

definition example_calls :: "(nat option make_args, example_override_args) blueprint_call list" where
  "example_calls =
     [Make example_args_supplied, MakeWithOverrides (example_overrides (Some 2)),
      Make example_args_omitted]"

section \<open>The external helpers, from the spec\<close>

text \<open>Modelled from the spec: the external input-override resolver
  (\<^verbatim>\<open>resolveInputOverrides\<close>, whose module is not among the sources). The spec: "given declared
  input slots, ambient resolved inputs, and optional per-call overrides, produces the effective
  resolved input mapping passed to the base factory"; the overrides "are merged with the ambient
  resolved inputs", and where both supply a value "the source prefers the inner call's values".
  Resolved inputs and overrides are maps from input names to values. The spec gives the
  declared slots no role in the merge and names no failure of the resolver.\<close>

definition resolveInputOverrides_spec ::
  "(string \<rightharpoonup> 'i) option \<Rightarrow> (string \<rightharpoonup> 'iv) \<Rightarrow> (string \<rightharpoonup> 'iv) option \<Rightarrow>
   'e + (string \<rightharpoonup> 'iv)" where
  "resolveInputOverrides_spec declaredInputs inputs inputOverrides =
     Inr (inputs ++ spread inputOverrides)"

text \<open>Modelled from the spec: the external data container constructor
  (\<^verbatim>\<open>createExtensionDataContainer\<close>, whose module is not among the sources). The spec: it
  "wraps a raw iterable of output values together with a declared output-kind list into a
  validated container", so that "the original factory's emitted values are still validated
  against the base contract". A data value is a pair of its output kind and its payload; the
  container keeps the values and the declared list, and the construction throws when a value
  has a kind that is not declared.\<close>

definition createExtensionDataContainer_spec ::
  "('r \<times> 'b) list \<Rightarrow> 'r list \<Rightarrow> string + (('r \<times> 'b) list \<times> 'r list)" where
  "createExtensionDataContainer_spec vals declaredRefs =
     (if list_all (\<lambda>v. fst v \<in> set declaredRefs) vals then Inr (vals, declaredRefs)
      else Inl ''extension data was provided but not declared'')"

text \<open>Modelled from the spec: iterating a data container, which the override factory "may
  inspect, transform, or simply re-yield into its own output stream": the values it wraps.\<close>

definition container_values :: "'v list \<times> 'r list \<Rightarrow> 'v list" where
  "container_values container = fst container"

text \<open>A blueprint over these helpers. Its factory yields one value of kind \<open>X\<close> that carries
  the params, the config and the inputs \<open>header\<close> and \<open>sidebar\<close> it was called with.\<close>

type_synonym page_value = "string \<times> nat option \<times> string \<times> string option \<times> string option"

type_synonym page_context = "(unit, unit, string, string \<rightharpoonup> string) factory_context"

type_synonym page_override_args =
  "(nat option, page_value, string, string, string, unit, unit, string,
    string \<rightharpoonup> string, string \<rightharpoonup> string, page_value list \<times> string list, string)
   override_args"

definition page_createExtension ::
  "('v, 'r, 'i, 's, 'n, 'a, 'c, 'x, string) extension_declaration \<Rightarrow> nat \<Rightarrow>
   (string + ('v, 'r, 'i, 's, 'n, 'a, 'c, 'x, string) extension_declaration) \<times> nat" where
  "page_createExtension decl calls =
     (if decl_kind decl = [] then (Inl ''kind must not be empty'', Suc calls)
      else (Inr decl, Suc calls))"

definition page_factory :: "nat option \<Rightarrow> page_context \<Rightarrow> string + page_value list" where
  "page_factory params ctx =
     Inr [(''X'', params, ctx_config ctx, ctx_inputs ctx ''header'', ctx_inputs ctx ''sidebar'')]"

definition page_options ::
  "(nat option, page_value, string, string, string, unit, unit, string,
    string \<rightharpoonup> string, string, unit) blueprint_options" where
  "page_options =
     \<lparr> opt_kind = ''page'',
       opt_namespace = None,
       opt_attachTo = \<lparr> at_id = ''app/routes'', at_input = ''routes'' \<rparr>,
       opt_disabled = None,
       opt_inputs = Some [''header'' \<mapsto> ''header slot'', ''sidebar'' \<mapsto> ''sidebar slot''],
       opt_output = [''X''],
       opt_name = None,
       opt_config = Some \<lparr> schema = [''foo'' \<mapsto> ''string''] \<rparr>,
       opt_factory = page_factory,
       opt_dataRefs = None \<rparr>"

definition page_context :: page_context where
  "page_context =
     \<lparr> ctx_node = (), ctx_apis = (), ctx_config = ''ambient config'',
       ctx_inputs = [''header'' \<mapsto> ''ambient header'', ''sidebar'' \<mapsto> ''ambient sidebar''] \<rparr>"

definition page_args :: "nat option make_args" where
  "page_args =
     \<lparr> arg_namespace = None, arg_name = None, arg_attachTo = None, arg_disabled = None,
       arg_params = Some 1 \<rparr>"

definition page_overrides_plain :: "nat option \<Rightarrow> page_override_args" where
  "page_overrides_plain params =
     \<lparr> ovr_namespace = None, ovr_name = None, ovr_attachTo = None, ovr_disabled = None,
       ovr_inputs = None, ovr_output = None, ovr_config = None,
       ovr_factory = passthrough_factory container_values params \<rparr>"

definition page_inner :: "(string, string \<rightharpoonup> string) inner_context" where
  "page_inner =
     \<lparr> inner_config = Some ''inner config'',
       inner_inputs = Some [''header'' \<mapsto> ''inner header''] \<rparr>"

definition page_inner_inputs_only :: "(string, string \<rightharpoonup> string) inner_context" where
  "page_inner_inputs_only =
     \<lparr> inner_config = None, inner_inputs = Some [''header'' \<mapsto> ''inner header''] \<rparr>"

definition page_overrides_inner ::
  "(string, string \<rightharpoonup> string) inner_context \<Rightarrow> page_override_args" where
  "page_overrides_inner inner =
     \<lparr> ovr_namespace = None, ovr_name = None, ovr_attachTo = None, ovr_disabled = None,
       ovr_inputs = None, ovr_output = None, ovr_config = None,
       ovr_factory = inner_context_factory container_values (Some 2) inner \<rparr>"

section \<open>Helper lemmas\<close>

lemma factory_context_rebuild:
  "\<lparr> ctx_node = ctx_node ctx, ctx_apis = ctx_apis ctx, ctx_config = ctx_config ctx,
     ctx_inputs = ctx_inputs ctx \<rparr> = (ctx :: ('n, 'a, 'c, 'x) factory_context)"
  by (cases ctx) simp

lemma override_factory_unfold:
  "decl_factory (makeWithOverrides_declaration r c options args) ctx =
     ovr_factory args (originalFactory r c options ctx) ctx"
  by (simp add: makeWithOverrides_declaration_def factory_context_rebuild)

lemma override_declaration_simps:
  "decl_kind (makeWithOverrides_declaration r c options args) = opt_kind options"
  "decl_namespace (makeWithOverrides_declaration r c options args) =
     nullish (ovr_namespace args) (opt_namespace options)"
  "decl_name (makeWithOverrides_declaration r c options args) =
     nullish (ovr_name args) (opt_name options)"
  "decl_attachTo (makeWithOverrides_declaration r c options args) =
     nullish_or (ovr_attachTo args) (opt_attachTo options)"
  "decl_disabled (makeWithOverrides_declaration r c options args) =
     nullish (ovr_disabled args) (opt_disabled options)"
  "decl_inputs (makeWithOverrides_declaration r c options args) =
     Some (spread (ovr_inputs args) ++ spread (opt_inputs options))"
  "decl_output (makeWithOverrides_declaration r c options args) =
     nullish_or (ovr_output args) (opt_output options)"
  "decl_config (makeWithOverrides_declaration r c options args) =
     merged_config (opt_config options) (ovr_config args)"
  by (simp_all add: makeWithOverrides_declaration_def)

lemma blueprint_make_unfold:
  "bp_make (createExtensionBlueprint ce r c options) args w =
     ce (make_declaration options args) w"
  by (simp add: createExtensionBlueprint_def make_def)

lemma blueprint_makeWithOverrides_unfold:
  "bp_makeWithOverrides (createExtensionBlueprint ce r c options) args w =
     ce (makeWithOverrides_declaration r c options args) w"
  by (simp add: createExtensionBlueprint_def makeWithOverrides_def)

lemma recorded_sequence:
  "snd (snd (call_sequence (createExtensionBlueprint (recording ce) r c options) calls (w, log))) =
     log @ map (call_declaration r c options) calls"
proof (induction calls arbitrary: w log)
  case Nil
  show ?case by simp
next
  case (Cons call calls)
  obtain res w' where step: "ce (call_declaration r c options call) w = (res, w')"
    by (cases "ce (call_declaration r c options call) w")
  have one: "call_blueprint (createExtensionBlueprint (recording ce) r c options) call (w, log) =
      (res, (w', log @ [call_declaration r c options call]))"
    using step
    by (cases call)
      (simp_all add: createExtensionBlueprint_def make_def makeWithOverrides_def recording_def)
  show ?case
    using Cons.IH [of w' "log @ [call_declaration r c options call]"]
    by (auto simp add: one split: prod.splits)
qed

lemma example_options_simps:
  "opt_kind example_options = ''page''"
  "opt_namespace example_options = Some ''app''"
  "opt_name example_options = None"
  "opt_attachTo example_options = \<lparr> at_id = ''app/routes'', at_input = ''routes'' \<rparr>"
  "opt_disabled example_options = Some False"
  "opt_inputs example_options =
     Some [''header'' \<mapsto> ''base header slot'', ''shared'' \<mapsto> ''base shared slot'']"
  "opt_output example_options = [''X'']"
  "opt_config example_options =
     Some \<lparr> schema = [''foo'' \<mapsto> ''base string'', ''title'' \<mapsto> ''base title''] \<rparr>"
  "opt_factory example_options = example_factory"
  by (simp_all add: example_options_def)

lemma example_context_simps:
  "ctx_node example_context = ()"
  "ctx_apis example_context = ()"
  "ctx_config example_context = ''ambient config''"
  "ctx_inputs example_context = [(''header'', ''ambient header'')]"
  by (simp_all add: example_context_def)

lemma page_options_simps:
  "opt_kind page_options = ''page''"
  "opt_inputs page_options = Some [''header'' \<mapsto> ''header slot'', ''sidebar'' \<mapsto> ''sidebar slot'']"
  "opt_output page_options = [''X'']"
  "opt_config page_options = Some \<lparr> schema = [''foo'' \<mapsto> ''string''] \<rparr>"
  "opt_factory page_options = page_factory"
  by (simp_all add: page_options_def)

lemma page_context_simps:
  "ctx_node page_context = ()"
  "ctx_apis page_context = ()"
  "ctx_config page_context = ''ambient config''"
  "ctx_inputs page_context = [''header'' \<mapsto> ''ambient header'', ''sidebar'' \<mapsto> ''ambient sidebar'']"
  by (simp_all add: page_context_def)

lemma merged_config_alone: "merged_config base None = base"
  by (cases base) (simp_all add: merged_config_def spread_def)

section \<open>Instantiation with fixed params\<close>

text \<open>
  Claim C1. For every blueprint and every call \<^verbatim>\<open>make(args)\<close>, the call returns what the
  external extension constructor returns for one declaration; that declaration carries the kind
  of the blueprint, and its namespace, name, attachment target and disabled flag are those of
  \<^verbatim>\<open>args\<close> where \<^verbatim>\<open>args\<close> supplies them and those of the blueprint where it omits them.
\<close>

theorem make_declaration_fields:
  "bp_make (createExtensionBlueprint createExtension resolveInputOverrides
       createExtensionDataContainer options) args w =
     createExtension (make_declaration options args) w
   \<and> decl_kind (make_declaration options args) = opt_kind options
   \<and> (arg_namespace args = Some ns \<longrightarrow>
        decl_namespace (make_declaration options args) = Some ns)
   \<and> (arg_namespace args = None \<longrightarrow>
        decl_namespace (make_declaration options args) = opt_namespace options)
   \<and> (arg_name args = Some nm \<longrightarrow> decl_name (make_declaration options args) = Some nm)
   \<and> (arg_name args = None \<longrightarrow> decl_name (make_declaration options args) = opt_name options)
   \<and> (arg_attachTo args = Some target \<longrightarrow>
        decl_attachTo (make_declaration options args) = target)
   \<and> (arg_attachTo args = None \<longrightarrow>
        decl_attachTo (make_declaration options args) = opt_attachTo options)
   \<and> (arg_disabled args = Some flag \<longrightarrow>
        decl_disabled (make_declaration options args) = Some flag)
   \<and> (arg_disabled args = None \<longrightarrow>
        decl_disabled (make_declaration options args) = opt_disabled options)"
  by (simp add: blueprint_make_unfold make_declaration_def nullish_def nullish_or_def)

theorem make_declaration_fields_witness:
  "arg_namespace example_args_supplied = Some ''catalog''
   \<and> arg_name example_args_supplied = Some ''index''
   \<and> arg_attachTo example_args_supplied = Some \<lparr> at_id = ''app/nav'', at_input = ''items'' \<rparr>
   \<and> arg_disabled example_args_supplied = Some True
   \<and> arg_namespace example_args_omitted = None
   \<and> arg_name example_args_omitted = None
   \<and> arg_attachTo example_args_omitted = None
   \<and> arg_disabled example_args_omitted = None
   \<and> decl_kind (make_declaration example_options example_args_supplied) = ''page''
   \<and> decl_namespace (make_declaration example_options example_args_supplied) = Some ''catalog''
   \<and> decl_name (make_declaration example_options example_args_supplied) = Some ''index''
   \<and> decl_attachTo (make_declaration example_options example_args_supplied) =
        \<lparr> at_id = ''app/nav'', at_input = ''items'' \<rparr>
   \<and> decl_disabled (make_declaration example_options example_args_supplied) = Some True
   \<and> decl_kind (make_declaration example_options example_args_omitted) = ''page''
   \<and> decl_namespace (make_declaration example_options example_args_omitted) = Some ''app''
   \<and> decl_name (make_declaration example_options example_args_omitted) = None
   \<and> decl_attachTo (make_declaration example_options example_args_omitted) =
        \<lparr> at_id = ''app/routes'', at_input = ''routes'' \<rparr>
   \<and> decl_disabled (make_declaration example_options example_args_omitted) = Some False"
proof -
  have supplied:
    "arg_namespace example_args_supplied = Some ''catalog''"
    "arg_name example_args_supplied = Some ''index''"
    "arg_attachTo example_args_supplied = Some \<lparr> at_id = ''app/nav'', at_input = ''items'' \<rparr>"
    "arg_disabled example_args_supplied = Some True"
    by (simp_all add: example_args_supplied_def)
  have omitted:
    "arg_namespace example_args_omitted = None"
    "arg_name example_args_omitted = None"
    "arg_attachTo example_args_omitted = None"
    "arg_disabled example_args_omitted = None"
    by (simp_all add: example_args_omitted_def)
  from supplied omitted example_options_simps
       make_declaration_fields
         [of example_createExtension example_resolver example_container example_options
             example_args_supplied 0 "''catalog''" "''index''"
             "\<lparr> at_id = ''app/nav'', at_input = ''items'' \<rparr>" True]
       make_declaration_fields
         [of example_createExtension example_resolver example_container example_options
             example_args_omitted 0]
  show ?thesis by simp
qed

section \<open>Instantiation with overrides: what is declared\<close>

text \<open>
  Claim C2. For every blueprint and every call \<^verbatim>\<open>makeWithOverrides(args)\<close>, the call returns
  what the external extension constructor returns for one declaration, and the input slots of
  that declaration are an object whose property names are exactly the names declared by the
  blueprint together with the names of the additional inputs of \<^verbatim>\<open>args\<close>: no name of either
  side is lost.
\<close>

theorem override_inputs_union:
  "bp_makeWithOverrides (createExtensionBlueprint createExtension resolveInputOverrides
       createExtensionDataContainer options) args w =
     createExtension (makeWithOverrides_declaration resolveInputOverrides
       createExtensionDataContainer options args) w
   \<and> map_option dom (decl_inputs (makeWithOverrides_declaration resolveInputOverrides
         createExtensionDataContainer options args)) =
       Some (dom (spread (opt_inputs options)) \<union> dom (spread (ovr_inputs args)))"
  by (auto simp add: blueprint_makeWithOverrides_unfold makeWithOverrides_declaration_def)

theorem override_inputs_union_witness:
  "map_option dom (decl_inputs (makeWithOverrides_declaration example_resolver example_container
       example_options (example_overrides (Some 2)))) =
     Some {''header'', ''shared'', ''extra''}"
  using override_inputs_union
    [of example_createExtension example_resolver example_container example_options
        "example_overrides (Some 2)" 0]
  by (auto simp add: example_options_simps example_overrides_def spread_def)

text \<open>
  Claim C3. When the blueprint has a config schema \<open>S\<close> and the call of
  \<^verbatim>\<open>makeWithOverrides\<close> supplies a config schema \<open>S'\<close>, the config schema of the declaration
  handed to the external constructor is the shallow union of the two: its keys are the keys of
  \<open>S\<close> and of \<open>S'\<close>, a key of \<open>S'\<close> has the entry of \<open>S'\<close> (also when \<open>S\<close> has the key too: the
  override wins), and any other key has the entry of \<open>S\<close>.
\<close>

theorem override_config_union:
  "opt_config options = Some \<lparr> schema = S \<rparr> \<Longrightarrow> ovr_config args = Some \<lparr> schema = S' \<rparr> \<Longrightarrow>
   bp_makeWithOverrides (createExtensionBlueprint createExtension resolveInputOverrides
       createExtensionDataContainer options) args w =
     createExtension (makeWithOverrides_declaration resolveInputOverrides
       createExtensionDataContainer options args) w
   \<and> (\<exists>merged.
        decl_config (makeWithOverrides_declaration resolveInputOverrides
          createExtensionDataContainer options args) = Some \<lparr> schema = merged \<rparr>
        \<and> dom merged = dom S \<union> dom S'
        \<and> (\<forall>key. key \<in> dom S' \<longrightarrow> merged key = S' key)
        \<and> (\<forall>key. key \<notin> dom S' \<longrightarrow> merged key = S key))"
  by (auto simp add: blueprint_makeWithOverrides_unfold makeWithOverrides_declaration_def
      merged_config_def spread_def map_add_def split: option.splits)

theorem override_config_union_witness:
  "opt_config example_options =
     Some \<lparr> schema = [''foo'' \<mapsto> ''base string'', ''title'' \<mapsto> ''base title''] \<rparr>
   \<and> ovr_config (example_overrides (Some 2)) =
     Some \<lparr> schema = [''bar'' \<mapsto> ''override number'', ''title'' \<mapsto> ''override title''] \<rparr>
   \<and> map_option (\<lambda>cfg. (schema cfg ''foo'', schema cfg ''bar'', schema cfg ''title''))
       (decl_config (makeWithOverrides_declaration example_resolver example_container
          example_options (example_overrides (Some 2)))) =
     Some (Some ''base string'', Some ''override number'', Some ''override title'')"
proof -
  have base: "opt_config example_options =
      Some \<lparr> schema = [''foo'' \<mapsto> ''base string'', ''title'' \<mapsto> ''base title''] \<rparr>"
    by (simp add: example_options_def)
  have extra: "ovr_config (example_overrides (Some 2)) =
      Some \<lparr> schema = [''bar'' \<mapsto> ''override number'', ''title'' \<mapsto> ''override title''] \<rparr>"
    by (simp add: example_overrides_def)
  from override_config_union
         [OF base extra, of example_createExtension example_resolver example_container 0]
  obtain merged where
    decl: "decl_config (makeWithOverrides_declaration example_resolver example_container
        example_options (example_overrides (Some 2))) = Some \<lparr> schema = merged \<rparr>"
    and inside: "\<forall>key. key \<in> dom [''bar'' \<mapsto> ''override number'', ''title'' \<mapsto> ''override title'']
        \<longrightarrow> merged key = [''bar'' \<mapsto> ''override number'', ''title'' \<mapsto> ''override title''] key"
    and outside: "\<forall>key. key \<notin> dom [''bar'' \<mapsto> ''override number'', ''title'' \<mapsto> ''override title'']
        \<longrightarrow> merged key = [''foo'' \<mapsto> ''base string'', ''title'' \<mapsto> ''base title''] key"
    by blast
  from inside have "merged ''bar'' = Some ''override number''"
    and "merged ''title'' = Some ''override title''"
    by simp_all
  moreover from outside have "merged ''foo'' = Some ''base string''"
    by simp
  ultimately show ?thesis
    using base extra decl by simp
qed

text \<open>
  Claim C10. When an input name is declared by the blueprint and is also among the additional
  inputs of \<^verbatim>\<open>makeWithOverrides\<close> (which only a type-erased call can do), the call returns
  what the external constructor returns for one declaration, and that declaration has the slot
  of the blueprint under that name, not the slot of the override:
  \<^verbatim>\<open>{ ...args.inputs, ...options.inputs }\<close> spreads the blueprint's inputs last, the opposite
  order to the config schema.
\<close>

theorem override_inputs_base_wins:
  "opt_inputs options = Some base \<Longrightarrow> ovr_inputs args = Some extra \<Longrightarrow>
   base name = Some base_slot \<Longrightarrow> extra name = Some extra_slot \<Longrightarrow>
   bp_makeWithOverrides (createExtensionBlueprint createExtension resolveInputOverrides
       createExtensionDataContainer options) args w =
     createExtension (makeWithOverrides_declaration resolveInputOverrides
       createExtensionDataContainer options args) w
   \<and> map_option (\<lambda>slots. slots name)
       (decl_inputs (makeWithOverrides_declaration resolveInputOverrides
          createExtensionDataContainer options args)) = Some (Some base_slot)"
  by (simp add: blueprint_makeWithOverrides_unfold override_declaration_simps spread_def)

theorem override_inputs_base_wins_witness:
  "opt_inputs example_options =
     Some [''header'' \<mapsto> ''base header slot'', ''shared'' \<mapsto> ''base shared slot'']
   \<and> ovr_inputs (example_overrides (Some 2)) =
     Some [''extra'' \<mapsto> ''extra slot'', ''shared'' \<mapsto> ''override shared slot'']
   \<and> [''header'' \<mapsto> ''base header slot'', ''shared'' \<mapsto> ''base shared slot''] ''shared'' =
     Some ''base shared slot''
   \<and> [''extra'' \<mapsto> ''extra slot'', ''shared'' \<mapsto> ''override shared slot''] ''shared'' =
     Some ''override shared slot''
   \<and> bp_makeWithOverrides (createExtensionBlueprint example_createExtension example_resolver
       example_container example_options) (example_overrides (Some 2)) 0 =
     example_createExtension (makeWithOverrides_declaration example_resolver example_container
       example_options (example_overrides (Some 2))) 0
   \<and> map_option (\<lambda>slots. slots ''shared'')
       (decl_inputs (makeWithOverrides_declaration example_resolver example_container
          example_options (example_overrides (Some 2)))) = Some (Some ''base shared slot'')"
proof -
  have base: "opt_inputs example_options =
      Some [''header'' \<mapsto> ''base header slot'', ''shared'' \<mapsto> ''base shared slot'']"
    by (simp add: example_options_def)
  have extra: "ovr_inputs (example_overrides (Some 2)) =
      Some [''extra'' \<mapsto> ''extra slot'', ''shared'' \<mapsto> ''override shared slot'']"
    by (simp add: example_overrides_def)
  have base_slot:
    "[''header'' \<mapsto> ''base header slot'', ''shared'' \<mapsto> ''base shared slot''] ''shared'' =
       Some ''base shared slot''"
    by simp
  have extra_slot:
    "[''extra'' \<mapsto> ''extra slot'', ''shared'' \<mapsto> ''override shared slot''] ''shared'' =
       Some ''override shared slot''"
    by simp
  from override_inputs_base_wins
         [where createExtension = example_createExtension
            and resolveInputOverrides = example_resolver
            and createExtensionDataContainer = example_container and w = 0,
          OF base extra base_slot extra_slot]
       base extra base_slot extra_slot
  show ?thesis by simp
qed

text \<open>
  Claim C4. A call of \<^verbatim>\<open>makeWithOverrides\<close> returns what the external constructor returns
  for one declaration. An output list supplied by \<^verbatim>\<open>args\<close> is the output list of that
  declaration, and the output list of the blueprint is handed over when \<^verbatim>\<open>args\<close> has none. The callable that the factory of the declaration gives
  to the override factory is \<open>originalFactory\<close> of the blueprint's options alone, and whenever
  the base factory returns values, that callable returns what the data container constructor
  returns for these values and the output list of the blueprint, whatever output list \<^verbatim>\<open>args\<close>
  supplies.
\<close>

theorem override_output_and_container:
  "bp_makeWithOverrides (createExtensionBlueprint createExtension resolveInputOverrides
       createExtensionDataContainer options) args w =
     createExtension (makeWithOverrides_declaration resolveInputOverrides
       createExtensionDataContainer options args) w
   \<and> (ovr_output args = Some outs \<longrightarrow>
      decl_output (makeWithOverrides_declaration resolveInputOverrides
        createExtensionDataContainer options args) = outs)
   \<and> (ovr_output args = None \<longrightarrow>
      decl_output (makeWithOverrides_declaration resolveInputOverrides
        createExtensionDataContainer options args) = opt_output options)
   \<and> decl_factory (makeWithOverrides_declaration resolveInputOverrides
        createExtensionDataContainer options args) ctx =
      ovr_factory args
        (originalFactory resolveInputOverrides createExtensionDataContainer options ctx) ctx
   \<and> (resolveInputOverrides (opt_inputs options) (ctx_inputs ctx)
          (opt_chain innerContext inner_inputs) = Inr resolved \<longrightarrow>
      opt_factory options innerParams
          \<lparr> ctx_node = ctx_node ctx, ctx_apis = ctx_apis ctx,
            ctx_config = nullish_or (opt_chain innerContext inner_config) (ctx_config ctx),
            ctx_inputs = resolved \<rparr> = Inr vals \<longrightarrow>
      originalFactory resolveInputOverrides createExtensionDataContainer options ctx
          innerParams innerContext =
        createExtensionDataContainer vals (opt_output options))"
  by (simp add: blueprint_makeWithOverrides_unfold override_factory_unfold
      override_declaration_simps nullish_or_def originalFactory_def)

theorem override_output_and_container_witness:
  "bp_makeWithOverrides (createExtensionBlueprint example_createExtension example_resolver
       example_container example_options) (example_overrides (Some 2)) 0 =
     example_createExtension (makeWithOverrides_declaration example_resolver example_container
       example_options (example_overrides (Some 2))) 0
   \<and> ovr_output (example_overrides (Some 2)) = Some [''Y'']
   \<and> decl_output (makeWithOverrides_declaration example_resolver example_container
        example_options (example_overrides (Some 2))) = [''Y'']
   \<and> ovr_output (example_overrides_plain (Some 2)) = None
   \<and> decl_output (makeWithOverrides_declaration example_resolver example_container
        example_options (example_overrides_plain (Some 2))) = [''X'']
   \<and> example_resolver (opt_inputs example_options) (ctx_inputs example_context) None =
        Inr [(''header'', ''ambient header'')]
   \<and> example_factory (Some 2) example_context =
        Inr [(''X'', Some 2, ''ambient config'', [(''header'', ''ambient header'')])]
   \<and> originalFactory example_resolver example_container example_options example_context
        (Some 2) None =
        Inr ([(''X'', Some 2, ''ambient config'', [(''header'', ''ambient header'')])], [''X''])"
proof -
  have supplied: "ovr_output (example_overrides (Some 2)) = Some [''Y'']"
    by (simp add: example_overrides_def)
  have omitted: "ovr_output (example_overrides_plain (Some 2)) = None"
    by (simp add: example_overrides_plain_def)
  have resolved: "example_resolver (opt_inputs example_options) (ctx_inputs example_context)
      (opt_chain None inner_inputs) = Inr [(''header'', ''ambient header'')]"
    by (simp add: example_resolver_def opt_chain_def example_context_simps)
  have emitted: "opt_factory example_options (Some 2)
      \<lparr> ctx_node = ctx_node example_context, ctx_apis = ctx_apis example_context,
        ctx_config = nullish_or (opt_chain None inner_config) (ctx_config example_context),
        ctx_inputs = [(''header'', ''ambient header'')] \<rparr> =
      Inr [(''X'', Some 2, ''ambient config'', [(''header'', ''ambient header'')])]"
    by (simp add: example_options_simps example_factory_def nullish_or_def opt_chain_def
        example_context_simps)
  have direct: "example_factory (Some 2) example_context =
      Inr [(''X'', Some 2, ''ambient config'', [(''header'', ''ambient header'')])]"
    by (simp add: example_factory_def example_context_simps)
  have wrapped: "example_container
      [(''X'', Some 2, ''ambient config'', [(''header'', ''ambient header'')])] [''X''] =
      Inr ([(''X'', Some 2, ''ambient config'', [(''header'', ''ambient header'')])], [''X''])"
    by (simp add: example_container_def)
  note at_supplied = override_output_and_container
    [where createExtension = example_createExtension and w = 0
       and args = "example_overrides (Some 2)" and outs = "[''Y'']"
       and resolveInputOverrides = example_resolver
       and createExtensionDataContainer = example_container
       and options = example_options and ctx = example_context and innerContext = None
       and resolved = "[(''header'', ''ambient header'')]" and innerParams = "Some 2"
       and vals = "[(''X'', Some 2, ''ambient config'', [(''header'', ''ambient header'')])]"]
  note at_omitted = override_output_and_container
    [where createExtension = example_createExtension and w = 0
       and args = "example_overrides_plain (Some 2)" and outs = "[]"
       and resolveInputOverrides = example_resolver
       and createExtensionDataContainer = example_container
       and options = example_options and ctx = example_context and innerContext = None
       and resolved = "[(''header'', ''ambient header'')]" and innerParams = "Some 2"
       and vals = "[(''X'', Some 2, ''ambient config'', [(''header'', ''ambient header'')])]"]
  have passed: "bp_makeWithOverrides (createExtensionBlueprint example_createExtension
      example_resolver example_container example_options) (example_overrides (Some 2)) 0 =
      example_createExtension (makeWithOverrides_declaration example_resolver example_container
        example_options (example_overrides (Some 2))) 0"
    using at_supplied [THEN conjunct1] .
  have out_supplied: "decl_output (makeWithOverrides_declaration example_resolver
      example_container example_options (example_overrides (Some 2))) = [''Y'']"
    using at_supplied [THEN conjunct2, THEN conjunct1, rule_format, OF supplied] .
  have out_omitted: "decl_output (makeWithOverrides_declaration example_resolver
      example_container example_options (example_overrides_plain (Some 2))) = [''X'']"
    using at_omitted [THEN conjunct2, THEN conjunct2, THEN conjunct1, rule_format, OF omitted]
    by (simp add: example_options_simps)
  have bound: "originalFactory example_resolver example_container example_options
      example_context (Some 2) None =
      example_container [(''X'', Some 2, ''ambient config'', [(''header'', ''ambient header'')])]
        (opt_output example_options)"
    using at_supplied [THEN conjunct2, THEN conjunct2, THEN conjunct2, THEN conjunct2,
        rule_format, OF resolved emitted] .
  have resolved': "example_resolver (opt_inputs example_options) (ctx_inputs example_context)
      None = Inr [(''header'', ''ambient header'')]"
    using resolved by (simp add: opt_chain_def)
  show ?thesis
    using passed supplied omitted out_supplied out_omitted resolved' direct bound wrapped
    by (simp add: example_options_simps)
qed

section \<open>Instantiation with overrides: the bound original factory\<close>

text \<open>
  Claim C5, as amended. The claim says that the bound original factory, called without params,
  calls the base factory with params supplied earlier in the enclosing calls. The code has no
  such params: the arguments of \<^verbatim>\<open>makeWithOverrides\<close> have no \<^verbatim>\<open>params\<close> property, and
  \<^verbatim>\<open>innerParams\<close> goes to \<^verbatim>\<open>options.factory\<close> as it is. What holds: the factory of the
  declaration gives the override factory a callable that depends on the blueprint's options and
  the context only, and that callable calls the base factory with exactly the params it is
  called with.
\<close>

theorem original_factory_passes_params:
  "decl_factory (makeWithOverrides_declaration resolveInputOverrides
      createExtensionDataContainer options args) ctx =
     ovr_factory args
       (originalFactory resolveInputOverrides createExtensionDataContainer options ctx) ctx
   \<and> (resolveInputOverrides (opt_inputs options) (ctx_inputs ctx)
          (opt_chain innerContext inner_inputs) = Inr resolved \<longrightarrow>
      originalFactory resolveInputOverrides createExtensionDataContainer options ctx
          innerParams innerContext =
        (case opt_factory options innerParams
                \<lparr> ctx_node = ctx_node ctx, ctx_apis = ctx_apis ctx,
                  ctx_config = nullish_or (opt_chain innerContext inner_config) (ctx_config ctx),
                  ctx_inputs = resolved \<rparr> of
           Inl e \<Rightarrow> Inl e
         | Inr vals \<Rightarrow> createExtensionDataContainer vals (opt_output options)))"
  by (simp add: override_factory_unfold originalFactory_def)

theorem original_factory_passes_params_witness:
  "example_resolver (opt_inputs example_options) (ctx_inputs example_context) None =
     Inr [(''header'', ''ambient header'')]
   \<and> originalFactory example_resolver example_container example_options example_context
       (Some 2) None =
     Inr ([(''X'', Some 2, ''ambient config'', [(''header'', ''ambient header'')])], [''X''])"
proof -
  have resolved: "example_resolver (opt_inputs example_options) (ctx_inputs example_context)
      (opt_chain None inner_inputs) = Inr [(''header'', ''ambient header'')]"
    by (simp add: example_resolver_def opt_chain_def example_context_simps)
  have "originalFactory example_resolver example_container example_options example_context
      (Some 2) None =
      (case opt_factory example_options (Some 2)
              \<lparr> ctx_node = ctx_node example_context, ctx_apis = ctx_apis example_context,
                ctx_config = nullish_or (opt_chain None inner_config) (ctx_config example_context),
                ctx_inputs = [(''header'', ''ambient header'')] \<rparr> of
         Inl e \<Rightarrow> Inl e
       | Inr vals \<Rightarrow> example_container vals (opt_output example_options))"
    using original_factory_passes_params
      [of example_resolver example_container example_options "example_overrides (Some 2)"
          example_context None "[(''header'', ''ambient header'')]" "Some 2",
       THEN conjunct2, rule_format, OF resolved]
    by (simp add: opt_chain_def)
  then show ?thesis
    using resolved
    by (simp add: example_options_simps example_factory_def example_container_def
        nullish_or_def opt_chain_def example_context_simps)
qed

text \<open>
  The counterexample to claim C5 as it is stated: an override factory calls the bound original
  factory with undefined params (\<open>None\<close>) and returns the container. The value the base factory
  yields records the params it was called with, and they are undefined.
\<close>

theorem original_factory_omitted_params_counterexample:
  "decl_factory (makeWithOverrides_declaration example_resolver example_container
      example_options (example_overrides_plain None)) example_context =
     Inr [(''X'', None, ''ambient config'', [(''header'', ''ambient header'')])]"
  by (simp add: override_factory_unfold example_overrides_plain_def passthrough_factory_def
      originalFactory_def example_resolver_def opt_chain_def nullish_or_def
      example_options_simps example_factory_def example_container_def example_context_simps)

text \<open>
  Claim C6. A call of \<^verbatim>\<open>makeWithOverrides\<close> hands the external constructor a declaration
  whose factory gives the override factory the bound original factory. When that callable is
  called with an inner context, the base factory is called with the config of the inner context
  when it has one, which takes precedence over the ambient resolved config, and with the
  ambient config otherwise; its inputs are what the external override resolver returns for the
  inputs declared by the blueprint, the ambient resolved inputs and the input overrides of the
  inner context, whatever resolver it is. With the resolver of the spec, which merges the
  overrides over the ambient inputs, the inputs the base factory is called with have the value
  of the inner context under every name the inner context overrides, and the ambient value under
  every other name.
\<close>

theorem original_factory_inner_context:
  "bp_makeWithOverrides (createExtensionBlueprint createExtension resolveInputOverrides
       createExtensionDataContainer options) args w =
     createExtension (makeWithOverrides_declaration resolveInputOverrides
       createExtensionDataContainer options args) w
   \<and> decl_factory (makeWithOverrides_declaration resolveInputOverrides
        createExtensionDataContainer options args) ctx =
      ovr_factory args
        (originalFactory resolveInputOverrides createExtensionDataContainer options ctx) ctx
   \<and> (inner_config inner = Some cfg \<longrightarrow>
      resolveInputOverrides (opt_inputs options) (ctx_inputs ctx) (inner_inputs inner) =
        Inr resolved \<longrightarrow>
      originalFactory resolveInputOverrides createExtensionDataContainer options ctx
          innerParams (Some inner) =
        (case opt_factory options innerParams
                \<lparr> ctx_node = ctx_node ctx, ctx_apis = ctx_apis ctx, ctx_config = cfg,
                  ctx_inputs = resolved \<rparr> of
           Inl e \<Rightarrow> Inl e
         | Inr vals \<Rightarrow> createExtensionDataContainer vals (opt_output options)))
   \<and> (inner_config inner = None \<longrightarrow>
      resolveInputOverrides (opt_inputs options) (ctx_inputs ctx) (inner_inputs inner) =
        Inr resolved \<longrightarrow>
      originalFactory resolveInputOverrides createExtensionDataContainer options ctx
          innerParams (Some inner) =
        (case opt_factory options innerParams
                \<lparr> ctx_node = ctx_node ctx, ctx_apis = ctx_apis ctx,
                  ctx_config = ctx_config ctx, ctx_inputs = resolved \<rparr> of
           Inl e \<Rightarrow> Inl e
         | Inr vals \<Rightarrow> createExtensionDataContainer vals (opt_output options)))
   \<and> (inner_inputs inner = Some overrides \<longrightarrow>
      originalFactory resolveInputOverrides_spec createExtensionDataContainer options ctx
          innerParams (Some inner) =
        (case opt_factory options innerParams
                \<lparr> ctx_node = ctx_node ctx, ctx_apis = ctx_apis ctx,
                  ctx_config = nullish_or (inner_config inner) (ctx_config ctx),
                  ctx_inputs = ctx_inputs ctx ++ overrides \<rparr> of
           Inl e \<Rightarrow> Inl e
         | Inr vals \<Rightarrow> createExtensionDataContainer vals (opt_output options))
      \<and> (overrides name = Some v \<longrightarrow> (ctx_inputs ctx ++ overrides) name = Some v)
      \<and> (overrides name = None \<longrightarrow> (ctx_inputs ctx ++ overrides) name = ctx_inputs ctx name))"
proof -
  have general: "originalFactory resolveInputOverrides createExtensionDataContainer options ctx
        innerParams (Some inner) =
      (case opt_factory options innerParams
              \<lparr> ctx_node = ctx_node ctx, ctx_apis = ctx_apis ctx,
                ctx_config = nullish_or (inner_config inner) (ctx_config ctx),
                ctx_inputs = resolved \<rparr> of
         Inl e \<Rightarrow> Inl e
       | Inr vals \<Rightarrow> createExtensionDataContainer vals (opt_output options))"
    if "resolveInputOverrides (opt_inputs options) (ctx_inputs ctx) (inner_inputs inner) =
        Inr resolved"
    using that by (simp add: originalFactory_def opt_chain_def)
  have merged: "originalFactory resolveInputOverrides_spec createExtensionDataContainer options
        ctx innerParams (Some inner) =
      (case opt_factory options innerParams
              \<lparr> ctx_node = ctx_node ctx, ctx_apis = ctx_apis ctx,
                ctx_config = nullish_or (inner_config inner) (ctx_config ctx),
                ctx_inputs = ctx_inputs ctx ++ overrides \<rparr> of
         Inl e \<Rightarrow> Inl e
       | Inr vals \<Rightarrow> createExtensionDataContainer vals (opt_output options))"
    if "inner_inputs inner = Some overrides"
    using that
    by (simp add: originalFactory_def opt_chain_def resolveInputOverrides_spec_def spread_def)
  have prevails: "(ctx_inputs ctx ++ overrides) name = Some v" if "overrides name = Some v"
    using that by simp
  have ambient: "(ctx_inputs ctx ++ overrides) name = ctx_inputs ctx name"
    if "overrides name = None"
    using that by (simp add: map_add_def)
  from general have with_cfg: "inner_config inner = Some cfg \<longrightarrow>
      resolveInputOverrides (opt_inputs options) (ctx_inputs ctx) (inner_inputs inner) =
        Inr resolved \<longrightarrow>
      originalFactory resolveInputOverrides createExtensionDataContainer options ctx
          innerParams (Some inner) =
        (case opt_factory options innerParams
                \<lparr> ctx_node = ctx_node ctx, ctx_apis = ctx_apis ctx, ctx_config = cfg,
                  ctx_inputs = resolved \<rparr> of
           Inl e \<Rightarrow> Inl e
         | Inr vals \<Rightarrow> createExtensionDataContainer vals (opt_output options))"
    by (simp add: nullish_or_def)
  from general have without_cfg: "inner_config inner = None \<longrightarrow>
      resolveInputOverrides (opt_inputs options) (ctx_inputs ctx) (inner_inputs inner) =
        Inr resolved \<longrightarrow>
      originalFactory resolveInputOverrides createExtensionDataContainer options ctx
          innerParams (Some inner) =
        (case opt_factory options innerParams
                \<lparr> ctx_node = ctx_node ctx, ctx_apis = ctx_apis ctx,
                  ctx_config = ctx_config ctx, ctx_inputs = resolved \<rparr> of
           Inl e \<Rightarrow> Inl e
         | Inr vals \<Rightarrow> createExtensionDataContainer vals (opt_output options))"
    by (simp add: nullish_or_def)
  show ?thesis
    using with_cfg without_cfg merged prevails ambient
    by (simp add: blueprint_makeWithOverrides_unfold override_factory_unfold)
qed

theorem original_factory_inner_context_witness:
  "inner_config page_inner = Some ''inner config''
   \<and> inner_inputs page_inner = Some [''header'' \<mapsto> ''inner header'']
   \<and> [''header'' \<mapsto> ''inner header''] ''header'' = Some ''inner header''
   \<and> [''header'' \<mapsto> ''inner header''] ''sidebar'' = None
   \<and> ctx_inputs page_context ''header'' = Some ''ambient header''
   \<and> resolveInputOverrides_spec (opt_inputs page_options) (ctx_inputs page_context)
        (inner_inputs page_inner) =
       (Inr (ctx_inputs page_context ++ [''header'' \<mapsto> ''inner header''])
          :: string + (string \<rightharpoonup> string))
   \<and> originalFactory resolveInputOverrides_spec createExtensionDataContainer_spec page_options
        page_context (Some 2) (Some page_inner) =
       Inr ([(''X'', Some 2, ''inner config'', Some ''inner header'', Some ''ambient sidebar'')],
            [''X''])
   \<and> decl_factory (makeWithOverrides_declaration resolveInputOverrides_spec
        createExtensionDataContainer_spec page_options (page_overrides_inner page_inner))
        page_context =
       Inr [(''X'', Some 2, ''inner config'', Some ''inner header'', Some ''ambient sidebar'')]
   \<and> inner_config page_inner_inputs_only = None
   \<and> originalFactory resolveInputOverrides_spec createExtensionDataContainer_spec page_options
        page_context (Some 2) (Some page_inner_inputs_only) =
       Inr ([(''X'', Some 2, ''ambient config'', Some ''inner header'', Some ''ambient sidebar'')],
            [''X''])"
proof -
  let ?overrides = "[''header'' \<mapsto> ''inner header'']"
  let ?resolved = "ctx_inputs page_context ++ ?overrides"
  have cfg: "inner_config page_inner = Some ''inner config''"
    and ov: "inner_inputs page_inner = Some ?overrides"
    by (simp_all add: page_inner_def)
  have no_cfg: "inner_config page_inner_inputs_only = None"
    and ov_only: "inner_inputs page_inner_inputs_only = Some ?overrides"
    by (simp_all add: page_inner_inputs_only_def)
  have at_header: "?overrides ''header'' = Some ''inner header''"
    and at_sidebar: "?overrides ''sidebar'' = None"
    by simp_all
  have ambient_header: "ctx_inputs page_context ''header'' = Some ''ambient header''"
    and ambient_sidebar: "ctx_inputs page_context ''sidebar'' = Some ''ambient sidebar''"
    by (simp_all add: page_context_simps)
  have resolved: "resolveInputOverrides_spec (opt_inputs page_options) (ctx_inputs page_context)
      (inner_inputs page_inner) = (Inr ?resolved :: string + (string \<rightharpoonup> string))"
    by (simp add: resolveInputOverrides_spec_def ov spread_def)
  have resolved_only: "resolveInputOverrides_spec (opt_inputs page_options)
      (ctx_inputs page_context) (inner_inputs page_inner_inputs_only) =
      (Inr ?resolved :: string + (string \<rightharpoonup> string))"
    by (simp add: resolveInputOverrides_spec_def ov_only spread_def)
  note at_inner = original_factory_inner_context
    [where createExtension = page_createExtension and w = 0
       and resolveInputOverrides = resolveInputOverrides_spec
       and createExtensionDataContainer = createExtensionDataContainer_spec
       and options = page_options and args = "page_overrides_inner page_inner"
       and ctx = page_context and inner = page_inner and cfg = "''inner config''"
       and resolved = ?resolved and innerParams = "Some 2" and overrides = ?overrides
       and name = "''header''" and v = "''inner header''"]
  note at_sidebar_name = original_factory_inner_context
    [where createExtension = page_createExtension and w = 0
       and resolveInputOverrides = resolveInputOverrides_spec
       and createExtensionDataContainer = createExtensionDataContainer_spec
       and options = page_options and args = "page_overrides_inner page_inner"
       and ctx = page_context and inner = page_inner_inputs_only
       and resolved = ?resolved and innerParams = "Some 2" and overrides = ?overrides
       and name = "''sidebar''"]
  have header: "?resolved ''header'' = Some ''inner header''"
    using at_inner ov at_header by blast
  have sidebar: "?resolved ''sidebar'' = Some ''ambient sidebar''"
    using at_sidebar_name ov_only at_sidebar ambient_sidebar by simp
  have wrapped: "createExtensionDataContainer_spec
      [(''X'', Some 2, cfg, Some ''inner header'', Some ''ambient sidebar'')] [''X''] =
      Inr ([(''X'', Some 2, cfg, Some ''inner header'', Some ''ambient sidebar'')], [''X''])"
    for cfg :: string
    by (simp add: createExtensionDataContainer_spec_def)
  have "originalFactory resolveInputOverrides_spec createExtensionDataContainer_spec page_options
      page_context (Some 2) (Some page_inner) =
      (case opt_factory page_options (Some 2)
              \<lparr> ctx_node = ctx_node page_context, ctx_apis = ctx_apis page_context,
                ctx_config = ''inner config'', ctx_inputs = ?resolved \<rparr> of
         Inl e \<Rightarrow> Inl e
       | Inr vals \<Rightarrow> createExtensionDataContainer_spec vals (opt_output page_options))"
    using at_inner cfg resolved by blast
  then have with_cfg: "originalFactory resolveInputOverrides_spec
      createExtensionDataContainer_spec page_options page_context (Some 2) (Some page_inner) =
      Inr ([(''X'', Some 2, ''inner config'', Some ''inner header'', Some ''ambient sidebar'')],
           [''X''])"
    using header sidebar wrapped [of "''inner config''"]
    by (simp add: page_options_simps page_factory_def)
  have "originalFactory resolveInputOverrides_spec createExtensionDataContainer_spec page_options
      page_context (Some 2) (Some page_inner_inputs_only) =
      (case opt_factory page_options (Some 2)
              \<lparr> ctx_node = ctx_node page_context, ctx_apis = ctx_apis page_context,
                ctx_config = ctx_config page_context, ctx_inputs = ?resolved \<rparr> of
         Inl e \<Rightarrow> Inl e
       | Inr vals \<Rightarrow> createExtensionDataContainer_spec vals (opt_output page_options))"
    using at_sidebar_name no_cfg resolved_only by blast
  then have without_cfg: "originalFactory resolveInputOverrides_spec
      createExtensionDataContainer_spec page_options page_context (Some 2)
        (Some page_inner_inputs_only) =
      Inr ([(''X'', Some 2, ''ambient config'', Some ''inner header'', Some ''ambient sidebar'')],
           [''X''])"
    using header sidebar wrapped [of "''ambient config''"]
    by (simp add: page_options_simps page_factory_def page_context_simps)
  have "decl_factory (makeWithOverrides_declaration resolveInputOverrides_spec
      createExtensionDataContainer_spec page_options (page_overrides_inner page_inner))
      page_context =
      ovr_factory (page_overrides_inner page_inner)
        (originalFactory resolveInputOverrides_spec createExtensionDataContainer_spec
           page_options page_context) page_context"
    using at_inner by blast
  then have through: "decl_factory (makeWithOverrides_declaration resolveInputOverrides_spec
      createExtensionDataContainer_spec page_options (page_overrides_inner page_inner))
      page_context =
      Inr [(''X'', Some 2, ''inner config'', Some ''inner header'', Some ''ambient sidebar'')]"
    using with_cfg
    by (simp add: page_overrides_inner_def inner_context_factory_def container_values_def)
  show ?thesis
    using cfg ov at_header at_sidebar ambient_header resolved with_cfg through no_cfg
      without_cfg
    by simp
qed

section \<open>Overriding without changes\<close>

text \<open>
  Claim C7, as amended. The claim says that, for every blueprint, an override factory that only
  calls the bound original factory and returns its result makes the factory of the declaration
  yield what a direct \<^verbatim>\<open>make\<close> yields. That fails where the override factory calls the original
  factory without params, which then are undefined, and where the base factory emits a value
  of a kind the blueprint does not declare, which only the container of the override path
  validates. What holds: take a call of \<^verbatim>\<open>makeWithOverrides\<close> with no additional inputs,
  outputs or config schema, whose override factory calls the bound original factory with
  params \<open>params\<close> and no inner context and returns the container it gets, and a call of
  \<^verbatim>\<open>make\<close> with the same params. Each hands one declaration to the external constructor.
  In every context where the override resolver returns the ambient inputs when there are no
  overrides, and where the container built from the values of the base factory and the outputs
  of the blueprint is accepted and iterates over these values, the factories of the two
  declarations give the same result: the same values, or the same exception. The two
  declarations also have the same kind, outputs, config and input slots.
\<close>

theorem passthrough_refines_make:
  assumes resolver: "resolveInputOverrides (opt_inputs options) (ctx_inputs ctx) None =
      Inr (ctx_inputs ctx)"
    and container: "\<And>vals. opt_factory options params ctx = Inr vals \<Longrightarrow>
      \<exists>k. createExtensionDataContainer vals (opt_output options) = Inr k \<and> values_of k = vals"
    and override: "ovr_factory oargs = passthrough_factory values_of params"
    and plain: "ovr_inputs oargs = None" "ovr_output oargs = None" "ovr_config oargs = None"
    and same: "arg_params margs = params"
  shows "bp_makeWithOverrides (createExtensionBlueprint createExtension resolveInputOverrides
        createExtensionDataContainer options) oargs w =
      createExtension (makeWithOverrides_declaration resolveInputOverrides
        createExtensionDataContainer options oargs) w
    \<and> bp_make (createExtensionBlueprint createExtension resolveInputOverrides
        createExtensionDataContainer options) margs w =
      createExtension (make_declaration options margs) w
    \<and> decl_factory (makeWithOverrides_declaration resolveInputOverrides
        createExtensionDataContainer options oargs) ctx =
      decl_factory (make_declaration options margs) ctx
    \<and> decl_kind (makeWithOverrides_declaration resolveInputOverrides
        createExtensionDataContainer options oargs) =
      decl_kind (make_declaration options margs)
    \<and> decl_output (makeWithOverrides_declaration resolveInputOverrides
        createExtensionDataContainer options oargs) =
      decl_output (make_declaration options margs)
    \<and> decl_config (makeWithOverrides_declaration resolveInputOverrides
        createExtensionDataContainer options oargs) =
      decl_config (make_declaration options margs)
    \<and> spread (decl_inputs (makeWithOverrides_declaration resolveInputOverrides
        createExtensionDataContainer options oargs)) =
      spread (decl_inputs (make_declaration options margs))"
proof -
  have factories: "decl_factory (makeWithOverrides_declaration resolveInputOverrides
      createExtensionDataContainer options oargs) ctx =
    decl_factory (make_declaration options margs) ctx"
  proof (cases "opt_factory options params ctx")
    case (Inl e)
    then show ?thesis
      using resolver override same
      by (simp add: override_factory_unfold passthrough_factory_def originalFactory_def
          opt_chain_def nullish_or_def make_declaration_def factory_context_rebuild)
  next
    case (Inr vals)
    from container [OF Inr] obtain k
      where k: "createExtensionDataContainer vals (opt_output options) = Inr k"
        "values_of k = vals"
      by blast
    show ?thesis
      using resolver override same Inr k
      by (simp add: override_factory_unfold passthrough_factory_def originalFactory_def
          opt_chain_def nullish_or_def make_declaration_def factory_context_rebuild)
  qed
  have declared: "decl_kind (makeWithOverrides_declaration resolveInputOverrides
        createExtensionDataContainer options oargs) =
      decl_kind (make_declaration options margs)"
    "decl_output (makeWithOverrides_declaration resolveInputOverrides
        createExtensionDataContainer options oargs) =
      decl_output (make_declaration options margs)"
    "decl_config (makeWithOverrides_declaration resolveInputOverrides
        createExtensionDataContainer options oargs) =
      decl_config (make_declaration options margs)"
    "spread (decl_inputs (makeWithOverrides_declaration resolveInputOverrides
        createExtensionDataContainer options oargs)) =
      spread (decl_inputs (make_declaration options margs))"
    using plain
    by (simp_all add: override_declaration_simps make_declaration_def nullish_or_def
        merged_config_alone spread_def)
  show ?thesis
    using factories declared
    by (simp add: blueprint_makeWithOverrides_unfold blueprint_make_unfold)
qed

theorem passthrough_refines_make_witness:
  "bp_makeWithOverrides (createExtensionBlueprint page_createExtension
       resolveInputOverrides_spec createExtensionDataContainer_spec page_options)
       (page_overrides_plain (Some 1)) 0 =
     page_createExtension (makeWithOverrides_declaration resolveInputOverrides_spec
       createExtensionDataContainer_spec page_options (page_overrides_plain (Some 1))) 0
   \<and> bp_make (createExtensionBlueprint page_createExtension
       resolveInputOverrides_spec createExtensionDataContainer_spec page_options) page_args 0 =
     page_createExtension (make_declaration page_options page_args) 0
   \<and> decl_factory (makeWithOverrides_declaration resolveInputOverrides_spec
      createExtensionDataContainer_spec page_options (page_overrides_plain (Some 1)))
      page_context =
     decl_factory (make_declaration page_options page_args) page_context
   \<and> decl_factory (make_declaration page_options page_args) page_context =
     Inr [(''X'', Some 1, ''ambient config'', Some ''ambient header'', Some ''ambient sidebar'')]"
proof -
  have resolver: "resolveInputOverrides_spec (opt_inputs page_options) (ctx_inputs page_context)
      None = (Inr (ctx_inputs page_context) :: string + (string \<rightharpoonup> string))"
    by (simp add: resolveInputOverrides_spec_def spread_def)
  have container: "\<exists>k. createExtensionDataContainer_spec vals (opt_output page_options) = Inr k
      \<and> container_values k = vals"
    if "opt_factory page_options (Some 1) page_context = Inr vals" for vals
    using that
    by (auto simp add: page_options_simps page_factory_def createExtensionDataContainer_spec_def
        container_values_def)
  have override: "ovr_factory (page_overrides_plain (Some 1)) =
      passthrough_factory container_values (Some 1)"
    by (simp add: page_overrides_plain_def)
  have plain: "ovr_inputs (page_overrides_plain (Some 1)) = None"
    "ovr_output (page_overrides_plain (Some 1)) = None"
    "ovr_config (page_overrides_plain (Some 1)) = None"
    by (simp_all add: page_overrides_plain_def)
  have same: "arg_params page_args = Some 1"
    by (simp add: page_args_def)
  have direct: "decl_factory (make_declaration page_options page_args) page_context =
      Inr [(''X'', Some 1, ''ambient config'', Some ''ambient header'', Some ''ambient sidebar'')]"
    by (simp add: make_declaration_def page_options_simps page_args_def page_factory_def
        page_context_simps)
  from passthrough_refines_make
         [where resolveInputOverrides = resolveInputOverrides_spec
            and createExtensionDataContainer = createExtensionDataContainer_spec
            and createExtension = page_createExtension and w = 0
            and options = page_options and ctx = page_context and params = "Some 1"
            and values_of = container_values and oargs = "page_overrides_plain (Some 1)"
            and margs = page_args,
          OF resolver container override plain same]
       direct
  show ?thesis by simp
qed

text \<open>
  The counterexample to claim C7 as it is stated. A blueprint whose factory yields a value of
  kind \<open>X\<close> and that declares no output: the factory of the \<^verbatim>\<open>makeWithOverrides\<close> declaration
  throws, from the container, and the factory of the \<^verbatim>\<open>make\<close> declaration yields the value.
  And on the blueprint that declares \<open>X\<close>, an override factory that calls the original factory
  without params: the base factory is called with undefined params, and with the params of the
  call in \<^verbatim>\<open>make\<close>.
\<close>

theorem passthrough_differs_counterexample:
  "decl_factory (makeWithOverrides_declaration resolveInputOverrides_spec
      createExtensionDataContainer_spec (page_options\<lparr>opt_output := []\<rparr>)
      (page_overrides_plain (Some 1))) page_context =
     Inl ''extension data was provided but not declared''
   \<and> decl_factory (make_declaration (page_options\<lparr>opt_output := []\<rparr>) page_args) page_context =
     Inr [(''X'', Some 1, ''ambient config'', Some ''ambient header'', Some ''ambient sidebar'')]
   \<and> decl_factory (makeWithOverrides_declaration resolveInputOverrides_spec
      createExtensionDataContainer_spec (page_options\<lparr>opt_output := []\<rparr>)
      (page_overrides_plain (Some 1))) page_context \<noteq>
     decl_factory (make_declaration (page_options\<lparr>opt_output := []\<rparr>) page_args) page_context
   \<and> decl_factory (makeWithOverrides_declaration resolveInputOverrides_spec
      createExtensionDataContainer_spec page_options (page_overrides_plain None)) page_context =
     Inr [(''X'', None, ''ambient config'', Some ''ambient header'', Some ''ambient sidebar'')]
   \<and> decl_factory (make_declaration page_options page_args) page_context =
     Inr [(''X'', Some 1, ''ambient config'', Some ''ambient header'', Some ''ambient sidebar'')]
   \<and> decl_factory (makeWithOverrides_declaration resolveInputOverrides_spec
      createExtensionDataContainer_spec page_options (page_overrides_plain None)) page_context \<noteq>
     decl_factory (make_declaration page_options page_args) page_context"
proof -
  have undeclared_override: "decl_factory (makeWithOverrides_declaration
      resolveInputOverrides_spec createExtensionDataContainer_spec
      (page_options\<lparr>opt_output := []\<rparr>) (page_overrides_plain (Some 1))) page_context =
      Inl ''extension data was provided but not declared''"
    by (simp add: override_factory_unfold page_overrides_plain_def passthrough_factory_def
        originalFactory_def resolveInputOverrides_spec_def opt_chain_def nullish_or_def
        page_options_simps page_factory_def createExtensionDataContainer_spec_def)
  have undeclared_make: "decl_factory (make_declaration (page_options\<lparr>opt_output := []\<rparr>)
      page_args) page_context =
      Inr [(''X'', Some 1, ''ambient config'', Some ''ambient header'', Some ''ambient sidebar'')]"
    by (simp add: make_declaration_def page_options_simps page_args_def page_factory_def
        page_context_simps)
  have omitted_override: "decl_factory (makeWithOverrides_declaration
      resolveInputOverrides_spec createExtensionDataContainer_spec page_options
      (page_overrides_plain None)) page_context =
      Inr [(''X'', None, ''ambient config'', Some ''ambient header'', Some ''ambient sidebar'')]"
    by (simp add: override_factory_unfold page_overrides_plain_def passthrough_factory_def
        originalFactory_def resolveInputOverrides_spec_def opt_chain_def nullish_or_def
        spread_def page_options_simps page_factory_def createExtensionDataContainer_spec_def
        container_values_def page_context_simps)
  have direct: "decl_factory (make_declaration page_options page_args) page_context =
      Inr [(''X'', Some 1, ''ambient config'', Some ''ambient header'', Some ''ambient sidebar'')]"
    by (simp add: make_declaration_def page_options_simps page_args_def page_factory_def
        page_context_simps)
  show ?thesis
    unfolding undeclared_override undeclared_make omitted_override direct
    by simp
qed

section \<open>Invariants of the blueprint\<close>

text \<open>
  Claim C8. Whatever sequence of \<^verbatim>\<open>make\<close> and \<^verbatim>\<open>makeWithOverrides\<close> calls a caller does on
  one blueprint, with whatever arguments, every declaration the external constructor is called
  with has the kind given when the blueprint was constructed. The constructor is recorded:
  the list of the kinds of the declarations it received, in order, is that kind once per call.
\<close>

theorem blueprint_kind_invariant:
  "map decl_kind (snd (snd (call_sequence
       (createExtensionBlueprint (recording createExtension) resolveInputOverrides
          createExtensionDataContainer options) calls (w, [])))) =
     replicate (length calls) (opt_kind options)"
proof -
  have "decl_kind (call_declaration resolveInputOverrides createExtensionDataContainer
      options call) = opt_kind options" for call
    by (cases call) (simp_all add: make_declaration_def override_declaration_simps)
  then show ?thesis
    by (simp add: recorded_sequence comp_def map_replicate_const)
qed

text \<open>At three calls with different arguments: the kinds are equal, the namespaces and names
  vary.\<close>

theorem blueprint_kind_invariant_witness:
  "map decl_kind (snd (snd (call_sequence
       (createExtensionBlueprint (recording example_createExtension) example_resolver
          example_container example_options) example_calls (0, [])))) =
     [''page'', ''page'', ''page'']
   \<and> map decl_namespace (snd (snd (call_sequence
       (createExtensionBlueprint (recording example_createExtension) example_resolver
          example_container example_options) example_calls (0, [])))) =
     [Some ''catalog'', Some ''app'', Some ''app'']
   \<and> map decl_name (snd (snd (call_sequence
       (createExtensionBlueprint (recording example_createExtension) example_resolver
          example_container example_options) example_calls (0, [])))) =
     [Some ''index'', Some ''custom'', None]"
proof -
  have len: "length example_calls = 3"
    by (simp add: example_calls_def)
  have kinds: "map decl_kind (snd (snd (call_sequence
       (createExtensionBlueprint (recording example_createExtension) example_resolver
          example_container example_options) example_calls (0, [])))) =
     [''page'', ''page'', ''page'']"
    using blueprint_kind_invariant
      [of example_createExtension example_resolver example_container example_options
          example_calls 0]
    by (simp add: len example_options_simps numeral_3_eq_3)
  have recorded: "snd (snd (call_sequence
       (createExtensionBlueprint (recording example_createExtension) example_resolver
          example_container example_options) example_calls (0, []))) =
     map (call_declaration example_resolver example_container example_options) example_calls"
    by (simp add: recorded_sequence)
  have others: "map decl_namespace (snd (snd (call_sequence
       (createExtensionBlueprint (recording example_createExtension) example_resolver
          example_container example_options) example_calls (0, [])))) =
     [Some ''catalog'', Some ''app'', Some ''app'']"
    "map decl_name (snd (snd (call_sequence
       (createExtensionBlueprint (recording example_createExtension) example_resolver
          example_container example_options) example_calls (0, [])))) =
     [Some ''index'', Some ''custom'', None]"
    unfolding recorded
    by (simp_all add: example_calls_def make_declaration_def
        override_declaration_simps nullish_def example_options_simps
        example_args_supplied_def example_args_omitted_def example_overrides_def)
  from kinds others show ?thesis by simp
qed

section \<open>Errors\<close>

text \<open>
  Claim C9. Neither \<^verbatim>\<open>make\<close> nor \<^verbatim>\<open>makeWithOverrides\<close> catches, wraps or changes an error.
  Each returns the result of one call of the external extension constructor as it is, in the
  world that call leaves, so also the exception it throws; recorded, the constructor has
  received exactly one more declaration after either call. The config schema of the blueprint
  reaches the constructor as it is (no schema entry is applied here). The factory of a
  \<^verbatim>\<open>make\<close> declaration returns what the base factory returns, and the factory of a
  \<^verbatim>\<open>makeWithOverrides\<close> declaration returns what the override factory returns, exceptions
  included. Inside the bound original factory, an exception of the override resolver or of the
  base factory is the result, and otherwise the result is that of the container constructor,
  an exception included.
\<close>

theorem errors_propagate_unchanged:
  "bp_make (createExtensionBlueprint createExtension resolveInputOverrides
       createExtensionDataContainer options) margs w =
     createExtension (make_declaration options margs) w
   \<and> bp_makeWithOverrides (createExtensionBlueprint createExtension resolveInputOverrides
       createExtensionDataContainer options) oargs w =
     createExtension (makeWithOverrides_declaration resolveInputOverrides
       createExtensionDataContainer options oargs) w
   \<and> snd (snd (bp_make (createExtensionBlueprint (recording createExtension)
       resolveInputOverrides createExtensionDataContainer options) margs (w, log))) =
     log @ [make_declaration options margs]
   \<and> snd (snd (bp_makeWithOverrides (createExtensionBlueprint (recording createExtension)
       resolveInputOverrides createExtensionDataContainer options) oargs (w, log))) =
     log @ [makeWithOverrides_declaration resolveInputOverrides createExtensionDataContainer
       options oargs]
   \<and> (createExtension (make_declaration options margs) w = (Inl e_make, w_make) \<longrightarrow>
      bp_make (createExtensionBlueprint createExtension resolveInputOverrides
        createExtensionDataContainer options) margs w = (Inl e_make, w_make))
   \<and> (createExtension (makeWithOverrides_declaration resolveInputOverrides
        createExtensionDataContainer options oargs) w = (Inl e_override, w_override) \<longrightarrow>
      bp_makeWithOverrides (createExtensionBlueprint createExtension resolveInputOverrides
        createExtensionDataContainer options) oargs w = (Inl e_override, w_override))
   \<and> decl_config (make_declaration options margs) = opt_config options
   \<and> decl_factory (make_declaration options margs) ctx =
      opt_factory options (arg_params margs) ctx
   \<and> decl_factory (makeWithOverrides_declaration resolveInputOverrides
        createExtensionDataContainer options oargs) ctx =
      ovr_factory oargs
        (originalFactory resolveInputOverrides createExtensionDataContainer options ctx) ctx
   \<and> (resolveInputOverrides (opt_inputs options) (ctx_inputs ctx)
          (opt_chain failingContext inner_inputs) = Inl e_resolver \<longrightarrow>
      originalFactory resolveInputOverrides createExtensionDataContainer options ctx
          innerParams failingContext = Inl e_resolver)
   \<and> (resolveInputOverrides (opt_inputs options) (ctx_inputs ctx)
          (opt_chain innerContext inner_inputs) = Inr resolved \<longrightarrow>
      opt_factory options failingParams
          \<lparr> ctx_node = ctx_node ctx, ctx_apis = ctx_apis ctx,
            ctx_config = nullish_or (opt_chain innerContext inner_config) (ctx_config ctx),
            ctx_inputs = resolved \<rparr> = Inl e_factory \<longrightarrow>
      originalFactory resolveInputOverrides createExtensionDataContainer options ctx
          failingParams innerContext = Inl e_factory)
   \<and> (resolveInputOverrides (opt_inputs options) (ctx_inputs ctx)
          (opt_chain innerContext inner_inputs) = Inr resolved \<longrightarrow>
      opt_factory options innerParams
          \<lparr> ctx_node = ctx_node ctx, ctx_apis = ctx_apis ctx,
            ctx_config = nullish_or (opt_chain innerContext inner_config) (ctx_config ctx),
            ctx_inputs = resolved \<rparr> = Inr vals \<longrightarrow>
      originalFactory resolveInputOverrides createExtensionDataContainer options ctx
          innerParams innerContext =
        createExtensionDataContainer vals (opt_output options))"
proof -
  have rec_make: "snd (snd (bp_make (createExtensionBlueprint (recording createExtension)
       resolveInputOverrides createExtensionDataContainer options) margs (w, log))) =
     log @ [make_declaration options margs]"
    by (simp add: blueprint_make_unfold recording_def split: prod.splits)
  have rec_override: "snd (snd (bp_makeWithOverrides (createExtensionBlueprint
       (recording createExtension) resolveInputOverrides createExtensionDataContainer options)
       oargs (w, log))) =
     log @ [makeWithOverrides_declaration resolveInputOverrides createExtensionDataContainer
       options oargs]"
    by (simp add: blueprint_makeWithOverrides_unfold recording_def split: prod.splits)
  have passed: "decl_config (make_declaration options margs) = opt_config options"
    "decl_factory (make_declaration options margs) ctx =
       opt_factory options (arg_params margs) ctx"
    by (simp_all add: make_declaration_def)
  have bound: "originalFactory resolveInputOverrides createExtensionDataContainer options ctx
        innerParams failingContext = Inl e_resolver"
    if "resolveInputOverrides (opt_inputs options) (ctx_inputs ctx)
        (opt_chain failingContext inner_inputs) = Inl e_resolver"
    using that by (simp add: originalFactory_def)
  have thrown: "originalFactory resolveInputOverrides createExtensionDataContainer options ctx
        failingParams innerContext = Inl e_factory"
    if "resolveInputOverrides (opt_inputs options) (ctx_inputs ctx)
        (opt_chain innerContext inner_inputs) = Inr resolved"
      and "opt_factory options failingParams
        \<lparr> ctx_node = ctx_node ctx, ctx_apis = ctx_apis ctx,
          ctx_config = nullish_or (opt_chain innerContext inner_config) (ctx_config ctx),
          ctx_inputs = resolved \<rparr> = Inl e_factory"
    using that by (simp add: originalFactory_def)
  have wrapped: "originalFactory resolveInputOverrides createExtensionDataContainer options ctx
        innerParams innerContext = createExtensionDataContainer vals (opt_output options)"
    if "resolveInputOverrides (opt_inputs options) (ctx_inputs ctx)
        (opt_chain innerContext inner_inputs) = Inr resolved"
      and "opt_factory options innerParams
        \<lparr> ctx_node = ctx_node ctx, ctx_apis = ctx_apis ctx,
          ctx_config = nullish_or (opt_chain innerContext inner_config) (ctx_config ctx),
          ctx_inputs = resolved \<rparr> = Inr vals"
    using that by (simp add: originalFactory_def)
  show ?thesis
    using rec_make rec_override passed bound thrown wrapped
    by (simp add: blueprint_make_unfold blueprint_makeWithOverrides_unfold
        override_factory_unfold)
qed

theorem errors_propagate_unchanged_witness:
  "example_createExtension
       (make_declaration (example_options\<lparr>opt_kind := []\<rparr>) example_args_omitted) 0 =
     (Inl ''kind must not be empty'', 1)
   \<and> bp_make (createExtensionBlueprint example_createExtension example_resolver
        example_container (example_options\<lparr>opt_kind := []\<rparr>)) example_args_omitted 0 =
     (Inl ''kind must not be empty'', 1)
   \<and> example_createExtension
       (makeWithOverrides_declaration example_resolver example_container
          (example_options\<lparr>opt_kind := []\<rparr>) (example_overrides (Some 2))) 0 =
     (Inl ''kind must not be empty'', 1)
   \<and> bp_makeWithOverrides (createExtensionBlueprint example_createExtension example_resolver
        example_container (example_options\<lparr>opt_kind := []\<rparr>)) (example_overrides (Some 2)) 0 =
     (Inl ''kind must not be empty'', 1)
   \<and> example_resolver (opt_inputs example_options) (ctx_inputs example_context)
        (inner_inputs example_inner_undeclared) =
     Inl ''override of an input that is not declared''
   \<and> originalFactory example_resolver example_container example_options example_context
        (Some 2) (Some example_inner_undeclared) =
     Inl ''override of an input that is not declared''
   \<and> example_factory (Some 0) example_context = Inl ''params must not be zero''
   \<and> originalFactory example_resolver example_container example_options example_context
        (Some 0) None = Inl ''params must not be zero''
   \<and> example_factory (Some 2) example_context =
     Inr [(''X'', Some 2, ''ambient config'', [(''header'', ''ambient header'')])]
   \<and> originalFactory example_resolver example_container (example_options\<lparr>opt_output := []\<rparr>)
        example_context (Some 2) None = Inl ''extension data was provided but not declared''"
proof -
  let ?unnamed = "example_options\<lparr>opt_kind := []\<rparr>"
  let ?undeclared = "example_options\<lparr>opt_output := []\<rparr>"
  let ?vals = "[(''X'', Some 2, ''ambient config'', [(''header'', ''ambient header'')])]"
  have ctor_make: "example_createExtension (make_declaration ?unnamed example_args_omitted) 0 =
      (Inl ''kind must not be empty'', 1)"
    by (simp add: example_createExtension_def make_declaration_def)
  have ctor_override: "example_createExtension
      (makeWithOverrides_declaration example_resolver example_container ?unnamed
         (example_overrides (Some 2))) 0 = (Inl ''kind must not be empty'', 1)"
    by (simp add: example_createExtension_def override_declaration_simps)
  have resolver_fails: "example_resolver (opt_inputs example_options)
      (ctx_inputs example_context) (opt_chain (Some example_inner_undeclared) inner_inputs) =
      Inl ''override of an input that is not declared''"
    by (simp add: example_resolver_def opt_chain_def example_inner_undeclared_def
        example_options_simps spread_def)
  have resolver_ok: "example_resolver (opt_inputs options) (ctx_inputs example_context)
      (opt_chain None inner_inputs) = Inr [(''header'', ''ambient header'')]" for options
    by (simp add: example_resolver_def opt_chain_def example_context_simps)
  have factory_fails: "opt_factory example_options (Some 0)
      \<lparr> ctx_node = ctx_node example_context, ctx_apis = ctx_apis example_context,
        ctx_config = nullish_or (opt_chain None inner_config) (ctx_config example_context),
        ctx_inputs = [(''header'', ''ambient header'')] \<rparr> = Inl ''params must not be zero''"
    by (simp add: example_options_simps example_factory_def)
  have factory_ok: "opt_factory ?undeclared (Some 2)
      \<lparr> ctx_node = ctx_node example_context, ctx_apis = ctx_apis example_context,
        ctx_config = nullish_or (opt_chain None inner_config) (ctx_config example_context),
        ctx_inputs = [(''header'', ''ambient header'')] \<rparr> = Inr ?vals"
    by (simp add: example_options_simps example_factory_def nullish_or_def opt_chain_def
        example_context_simps)
  note at_ctor = errors_propagate_unchanged
    [where createExtension = example_createExtension
       and resolveInputOverrides = example_resolver
       and createExtensionDataContainer = example_container
       and options = ?unnamed and margs = example_args_omitted
       and oargs = "example_overrides (Some 2)" and w = 0
       and e_make = "''kind must not be empty''" and w_make = 1
       and e_override = "''kind must not be empty''" and w_override = 1]
  note at_resolver = errors_propagate_unchanged
    [where resolveInputOverrides = example_resolver
       and createExtensionDataContainer = example_container
       and createExtension = example_createExtension
       and options = example_options and ctx = example_context
       and failingContext = "Some example_inner_undeclared"
       and e_resolver = "''override of an input that is not declared''"
       and innerParams = "Some 2"
       and innerContext = None and resolved = "[(''header'', ''ambient header'')]"
       and failingParams = "Some 0" and e_factory = "''params must not be zero''"]
  note at_container = errors_propagate_unchanged
    [where resolveInputOverrides = example_resolver
       and createExtensionDataContainer = example_container
       and createExtension = example_createExtension
       and options = ?undeclared and ctx = example_context
       and innerParams = "Some 2" and innerContext = None
       and resolved = "[(''header'', ''ambient header'')]" and vals = ?vals]
  have r1: "bp_make (createExtensionBlueprint example_createExtension example_resolver
      example_container ?unnamed) example_args_omitted 0 = (Inl ''kind must not be empty'', 1)"
    using at_ctor ctor_make by blast
  have r2: "bp_makeWithOverrides (createExtensionBlueprint example_createExtension
      example_resolver example_container ?unnamed) (example_overrides (Some 2)) 0 =
      (Inl ''kind must not be empty'', 1)"
    using at_ctor ctor_override by blast
  have r3: "originalFactory example_resolver example_container example_options example_context
      (Some 2) (Some example_inner_undeclared) =
      Inl ''override of an input that is not declared''"
    using at_resolver resolver_fails by blast
  have r4: "originalFactory example_resolver example_container example_options example_context
      (Some 0) None = Inl ''params must not be zero''"
    using at_resolver resolver_ok [of example_options] factory_fails by blast
  have r5: "originalFactory example_resolver example_container ?undeclared example_context
      (Some 2) None = example_container ?vals (opt_output ?undeclared)"
    using at_container resolver_ok [of ?undeclared] factory_ok by blast
  have resolver_fails': "example_resolver (opt_inputs example_options)
      (ctx_inputs example_context) (inner_inputs example_inner_undeclared) =
      Inl ''override of an input that is not declared''"
    using resolver_fails by (simp add: opt_chain_def)
  have direct: "example_factory (Some 0) example_context = Inl ''params must not be zero''"
    "example_factory (Some 2) example_context = Inr ?vals"
    by (simp_all add: example_factory_def example_context_simps)
  have rejected: "example_container ?vals (opt_output ?undeclared) =
      Inl ''extension data was provided but not declared''"
    by (simp add: example_container_def)
  show ?thesis
    using ctor_make ctor_override r1 r2 r3 r4 r5 resolver_fails' direct rejected
    by simp
qed

end
